theory Spec2Isabelle
  imports Complex_Main "HOL-Library.Word" "HOL-Library.Product_Lexorder"
begin

section \<open>Raster samples\<close>

text \<open>
  A floating-point sample is a finite value, an infinity or NaN. Finite values are
  real numbers, and a decimal literal of the source is read as the decimal it denotes.
  (numpy compares a 32-bit float array with a Python float in 32-bit precision, so the
  sample nearest to a cut point such as 0.100 compares equal to it, as the real number
  0.100 does here.)
\<close>

datatype fl = Fin real | PInf | NInf | NaN

text \<open>\<^verbatim>\<open>x <= y\<close> and \<open>x > y\<close> on floats: every comparison with NaN is false.\<close>

fun fle :: "fl \<Rightarrow> fl \<Rightarrow> bool" where
  "fle NaN _ = False"
| "fle _ NaN = False"
| "fle NInf _ = True"
| "fle _ PInf = True"
| "fle PInf _ = False"
| "fle _ NInf = False"
| "fle (Fin a) (Fin b) = (a \<le> b)"

fun fgt :: "fl \<Rightarrow> fl \<Rightarrow> bool" where
  "fgt NaN _ = False"
| "fgt _ NaN = False"
| "fgt NInf _ = False"
| "fgt _ PInf = False"
| "fgt PInf _ = True"
| "fgt _ NInf = True"
| "fgt (Fin a) (Fin b) = (a > b)"

text \<open>
  Rounding to a 32-bit float, to the nearest value with a tie to the even one:
  \<open>f32_binade x\<close> is the exponent \<open>e\<close> with \<open>2^e \<le> |x| < 2^(e+1)\<close>, kept between -126
  (below it the values are subnormal) and 127; the values of that binade are the
  multiples of \<open>2^(e-23)\<close>; a result beyond the largest finite value is an infinity.
\<close>

definition FLT_MAX :: real where
  "FLT_MAX = (2 ^ 24 - 1) * 2 ^ 104"

definition round_half_even :: "real \<Rightarrow> int" where
  "round_half_even x =
     (let n = \<lfloor>x\<rfloor>; r = x - of_int n
      in if r < 1 / 2 then n else if r > 1 / 2 then n + 1 else if even n then n else n + 1)"

definition pow2 :: "int \<Rightarrow> real" where
  "pow2 e = (if 0 \<le> e then 2 ^ nat e else 1 / 2 ^ nat (- e))"

fun binade_from :: "nat \<Rightarrow> int \<Rightarrow> real \<Rightarrow> int" where
  "binade_from 0 e x = e"
| "binade_from (Suc n) e x = (if pow2 (e + 1) \<le> x then binade_from n (e + 1) x else e)"

definition f32_binade :: "real \<Rightarrow> int" where
  "f32_binade x = binade_from 253 (- 126) \<bar>x\<bar>"

definition round_f32 :: "real \<Rightarrow> fl" where
  "round_f32 x =
     (let q = pow2 (f32_binade x - 23);
          r = of_int (round_half_even (x / q)) * q
      in if FLT_MAX < r then PInf else if r < - FLT_MAX then NInf else Fin r)"

text \<open>A real number is a 32-bit float when rounding leaves it as it is.\<close>

definition is_f32 :: "real \<Rightarrow> bool" where
  "is_f32 x = (round_f32 x = Fin x)"

text \<open>
  Subtraction of 32-bit floats: \<open>inf - inf\<close> is NaN, NaN propagates, and the difference of
  two finite values is rounded.
\<close>

fun fsub :: "fl \<Rightarrow> fl \<Rightarrow> fl" where
  "fsub NaN _ = NaN"
| "fsub _ NaN = NaN"
| "fsub PInf PInf = NaN"
| "fsub NInf NInf = NaN"
| "fsub PInf _ = PInf"
| "fsub NInf _ = NInf"
| "fsub _ PInf = NInf"
| "fsub _ NInf = PInf"
| "fsub (Fin a) (Fin b) = round_f32 (a - b)"

text \<open>
  \<^verbatim>\<open>np.nan_to_num(x, nan=0.0)\<close> on a 32-bit float: NaN becomes 0.0, and (by numpy's
  defaults for \<open>posinf\<close> and \<open>neginf\<close>) an infinity becomes the largest finite value of its
  sign, \<open>FLT_MAX = (2^24 - 1) * 2^104\<close>.
\<close>

fun nan_to_num :: "fl \<Rightarrow> fl" where
  "nan_to_num NaN = Fin 0"
| "nan_to_num PInf = Fin FLT_MAX"
| "nan_to_num NInf = Fin (- FLT_MAX)"
| "nan_to_num (Fin x) = Fin x"

section \<open>classify_severity: the per-pixel classification\<close>

text \<open>
  The seven conditions of \<open>classify_severity\<close>, evaluated at one pixel, in the order of
  the source list.
\<close>

definition conditions :: "fl \<Rightarrow> bool list" where
  "conditions v =
     [fle v (Fin (- 0.251)),
      fgt v (Fin (- 0.251)) \<and> fle v (Fin (- 0.101)),
      fgt v (Fin (- 0.101)) \<and> fle v (Fin 0.100),
      fgt v (Fin 0.100) \<and> fle v (Fin 0.270),
      fgt v (Fin 0.270) \<and> fle v (Fin 0.440),
      fgt v (Fin 0.440) \<and> fle v (Fin 0.660),
      fgt v (Fin 0.660)]"

definition classes :: "int list" where
  "classes = [1, 2, 3, 4, 5, 6, 7]"

text \<open>
  \<^verbatim>\<open>np.select(condlist, choicelist, default)\<close> at one pixel: the choice of the first
  condition that holds, the default when none does.
\<close>

fun np_select :: "bool list \<Rightarrow> int list \<Rightarrow> int \<Rightarrow> int" where
  "np_select (c # cs) (x # xs) d = (if c then x else np_select cs xs d)"
| "np_select _ _ d = d"

definition classify_value :: "fl \<Rightarrow> int" where
  "classify_value v = np_select (conditions v) classes 0"

text \<open>\<^verbatim>\<open>.astype(rasterio.uint8)\<close> on the integer result of \<open>np.select\<close>.\<close>

definition astype_uint8 :: "int \<Rightarrow> 8 word" where
  "astype_uint8 k = word_of_int k"

section \<open>Raster files\<close>

text \<open>
  A raster file is a single-band GeoTIFF: a profile (the metadata rasterio keeps with a
  dataset) and the samples of band 1 in row-major order. The bands this package
  reads and writes are 32-bit floats (the exported NBR images, the dNBR image) and
  8-bit unsigned integers (the classified image).
\<close>

record affine =
  t_a :: real
  t_b :: real
  t_c :: real
  t_d :: real
  t_e :: real
  t_f :: real

datatype dtype = Float32 | UInt8

datatype band = FloatBand "fl list" | ByteBand "8 word list"

record profile =
  dtype :: dtype
  nodata :: "fl option"
  width :: nat
  height :: nat
  count :: nat
  crs :: string
  transform :: affine
  compress :: "string option"

record gtiff =
  profile :: profile
  band1 :: band

record ndarray =
  shape :: "nat \<times> nat"
  cells :: band

type_synonym files = "string \<rightharpoonup> gtiff"

datatype error = RasterioIOError string | ValueError string | CRSError string

text \<open>\<^verbatim>\<open>rasterio.open(path)\<close>: a path that is not a raster file is an I/O error.\<close>

definition rio_open :: "files \<Rightarrow> string \<Rightarrow> error + gtiff" where
  "rio_open fs path = (case fs path of None \<Rightarrow> Inl (RasterioIOError path) | Some ds \<Rightarrow> Inr ds)"

text \<open>\<^verbatim>\<open>src.read(1)\<close>: band 1 as an array of shape (height, width).\<close>

definition read1 :: "gtiff \<Rightarrow> ndarray" where
  "read1 src = \<lparr>shape = (height (profile src), width (profile src)), cells = band1 src\<rparr>"

text \<open>
  rasterio's \<open>in_dtype_range\<close>: whether a nodata value can be held by a data type. A float
  type holds NaN, the infinities and the finite values of its range, an 8-bit unsigned
  integer type the values from 0 to 255.
\<close>

fun in_dtype_range :: "fl \<Rightarrow> dtype \<Rightarrow> bool" where
  "in_dtype_range (Fin x) Float32 = (- FLT_MAX \<le> x \<and> x \<le> FLT_MAX)"
| "in_dtype_range _ Float32 = True"
| "in_dtype_range (Fin x) UInt8 = (0 \<le> x \<and> x \<le> 255)"
| "in_dtype_range _ UInt8 = False"

fun nodata_fits :: "fl option \<Rightarrow> dtype \<Rightarrow> bool" where
  "nodata_fits None dt = True"
| "nodata_fits (Some v) dt = in_dtype_range v dt"

text \<open>
  The file that a failed \<open>rasterio.open(path, 'w', **profile)\<close> leaves behind: GDAL has
  created it with the size, the data type and the creation options of the profile and
  has filled it with zeros; its nodata value, coordinate reference system and transform
  have not been set yet.
\<close>

definition identity :: affine where
  "identity = \<lparr>t_a = 1, t_b = 0, t_c = 0, t_d = 0, t_e = 1, t_f = 0\<rparr>"

fun zeros :: "dtype \<Rightarrow> nat \<Rightarrow> band" where
  "zeros Float32 n = FloatBand (replicate n (Fin 0))"
| "zeros UInt8 n = ByteBand (replicate n 0)"

definition blank_file :: "profile \<Rightarrow> gtiff" where
  "blank_file prof =
     \<lparr>profile = prof\<lparr>nodata := None, crs := [], transform := identity\<rparr>,
      band1 = zeros (dtype prof) (height prof * width prof)\<rparr>"

text \<open>
  \<^verbatim>\<open>with rasterio.open(path, 'w', **profile) as dst: dst.write(array, 1)\<close>: the file at
  \<open>path\<close> is created or replaced. When the nodata value of the profile cannot be held
  by the data type of the profile, \<open>rasterio.open\<close> raises a \<open>ValueError\<close> (whose message
  also quotes the value and the type) after the file has been created, and nothing is
  written into it.
\<close>

definition rio_write :: "files \<Rightarrow> string \<Rightarrow> profile \<Rightarrow> band \<Rightarrow> error option \<times> files" where
  "rio_write fs path prof arr =
     (if nodata_fits (nodata prof) (dtype prof)
      then (None, fs(path \<mapsto> \<lparr>profile = prof, band1 = arr\<rparr>))
      else (Some (ValueError ''Given nodata value is beyond the valid range of its data type.''),
            fs(path \<mapsto> blank_file prof)))"

section \<open>calculate_dnbr\<close>

text \<open>\<open>np.nan_to_num\<close> on an array; an integer array has no NaN and is returned as it is.\<close>

fun band_nan_to_num :: "band \<Rightarrow> band" where
  "band_nan_to_num (FloatBand xs) = FloatBand (map nan_to_num xs)"
| "band_nan_to_num (ByteBand ws) = ByteBand ws"

definition byte_to_float :: "8 word \<Rightarrow> fl" where
  "byte_to_float w = Fin (real (unat w))"

text \<open>
  Element-wise \<open>-\<close>: 8-bit integers wrap around; an integer array meeting a float array
  is converted to floats first.
\<close>

fun band_sub :: "band \<Rightarrow> band \<Rightarrow> band" where
  "band_sub (FloatBand xs) (FloatBand ys) = FloatBand (map2 fsub xs ys)"
| "band_sub (ByteBand xs) (ByteBand ys) = ByteBand (map2 (-) xs ys)"
| "band_sub (FloatBand xs) (ByteBand ys) = FloatBand (map2 fsub xs (map byte_to_float ys))"
| "band_sub (ByteBand xs) (FloatBand ys) = FloatBand (map2 fsub (map byte_to_float xs) ys)"

text \<open>\<^verbatim>\<open>.astype(rasterio.float32)\<close>.\<close>

fun astype_float32 :: "band \<Rightarrow> fl list" where
  "astype_float32 (FloatBand xs) = xs"
| "astype_float32 (ByteBand ws) = map byte_to_float ws"

text \<open>
  The function returns the output path or raises; the files after the call are returned
  in both cases. The arrays are read unmasked and the \<open>nodata\<close> value of the profile is
  not consulted: the no-data samples the function handles are the NaN samples.
\<close>

definition calculate_dnbr ::
  "files \<Rightarrow> string \<Rightarrow> string \<Rightarrow> string \<Rightarrow> (error + string) \<times> files" where
  "calculate_dnbr fs pre_fire_path post_fire_path output_dnbr_path =
     (case rio_open fs pre_fire_path of
        Inl err \<Rightarrow> (Inl err, fs)
      | Inr src_pre \<Rightarrow>
          let pre_nbr = read1 src_pre;
              prof = profile src_pre
          in (case rio_open fs post_fire_path of
                Inl err \<Rightarrow> (Inl err, fs)
              | Inr src_post \<Rightarrow>
                  let post_nbr = read1 src_post
                  in if shape pre_nbr \<noteq> shape post_nbr
                     then (Inl (ValueError ''Image size mismatch.''), fs)
                     else
                       let dnbr = band_sub (band_nan_to_num (cells pre_nbr))
                                           (band_nan_to_num (cells post_nbr));
                           prof' = prof\<lparr>dtype := Float32, count := 1, compress := Some ''lzw''\<rparr>
                       in (case rio_write fs output_dnbr_path prof'
                                   (FloatBand (astype_float32 dnbr)) of
                             (Some err, fs') \<Rightarrow> (Inl err, fs')
                           | (None, fs') \<Rightarrow> (Inr output_dnbr_path, fs'))))"

section \<open>classify_severity\<close>

text \<open>
  The comparisons of \<open>classify_severity\<close> are made on floats; an integer array is
  converted to floats by them. \<open>classify_array\<close> is the array computed in lines 46 to 57.
  The profile written is the profile of the source with the data type changed: it keeps
  the nodata value of the source, which the write refuses when an 8-bit unsigned integer
  cannot hold it.
\<close>

definition classify_array :: "band \<Rightarrow> 8 word list" where
  "classify_array dnbr_array =
     map (\<lambda>v. astype_uint8 (classify_value v)) (astype_float32 dnbr_array)"

definition classify_severity ::
  "files \<Rightarrow> string \<Rightarrow> string \<Rightarrow> (error + string) \<times> files" where
  "classify_severity fs dnbr_tif_path output_classified_path =
     (case rio_open fs dnbr_tif_path of
        Inl err \<Rightarrow> (Inl err, fs)
      | Inr src \<Rightarrow>
          let dnbr_array = read1 src;
              prof = profile src;
              classified_array = classify_array (cells dnbr_array);
              prof' = prof\<lparr>dtype := UInt8, count := 1, compress := Some ''lzw''\<rparr>
          in (case rio_write fs output_classified_path prof' (ByteBand classified_array) of
                (Some err, fs') \<Rightarrow> (Inl err, fs')
              | (None, fs') \<Rightarrow> (Inr output_classified_path, fs')))"

section \<open>calculate_area\<close>

definition class_labels :: "int \<rightharpoonup> string" where
  "class_labels = map_of
     [(1, ''Enhanced Regrowth, High''),
      (2, ''Enhanced Regrowth, Moderate''),
      (3, ''Unburned''),
      (4, ''Low-Severity Burn''),
      (5, ''Moderate-Severity Burn''),
      (6, ''High-Severity Burn''),
      (7, ''Extreme-Severity Burn'')]"

text \<open>
  An entry of the report: the per-class entries carry \<open>class_id\<close>, the total does not.
  The report is a Python dict, kept as the list of its items in insertion order.
\<close>

record stat =
  class_id :: "int option"
  area_hectares :: real

type_synonym report = "(string \<times> stat) list"

fun dict_set :: "('k \<times> 'v) list \<Rightarrow> 'k \<Rightarrow> 'v \<Rightarrow> ('k \<times> 'v) list" where
  "dict_set [] k v = [(k, v)]"
| "dict_set ((k', v') # kvs) k v = (if k' = k then (k, v) # kvs else (k', v') # dict_set kvs k v)"

definition dict_get :: "('k \<times> 'v) list \<Rightarrow> 'k \<Rightarrow> 'v option" where
  "dict_get kvs k = map_of kvs k"

text \<open>
  \<^verbatim>\<open>round(x, 2)\<close>: to the nearest multiple of 0.01, a tie to the even one. The areas of
  \<open>calculate_area\<close> are 64-bit floats; they are modelled by the real numbers they stand
  for, with exact products, quotients and sums, so a modelled area can differ from the
  computed one in the last binary digits, and by one hundredth where the exact value lies
  at the middle of two hundredths within those digits. The theorems on single areas
  therefore state them by their distance from the unrounded value.
\<close>

definition py_round :: "real \<Rightarrow> nat \<Rightarrow> real" where
  "py_round x ndigits = of_int (round_half_even (x * 10 ^ ndigits)) / 10 ^ ndigits"

text \<open>
  \<^verbatim>\<open>np.unique(array, return_counts=True)\<close>: the distinct values in ascending order, each
  with its number of occurrences. Floats are ordered with NaN last.
\<close>

definition unique_counts :: "('a \<Rightarrow> 'b::linorder) \<Rightarrow> 'a list \<Rightarrow> ('a \<times> nat) list" where
  "unique_counts key xs = map (\<lambda>v. (v, count_list xs v)) (sort_key key (remdups xs))"

fun fl_rank :: "fl \<Rightarrow> nat \<times> real" where
  "fl_rank NInf = (0, 0)"
| "fl_rank (Fin x) = (1, x)"
| "fl_rank PInf = (2, 0)"
| "fl_rank NaN = (3, 0)"

text \<open>
  The dict key a sample is equal to, if any: \<open>value in class_labels\<close> and
  \<open>class_labels[value]\<close> compare the sample with the integer keys, and \<open>int(value)\<close>
  is that integer.
\<close>

fun float_key :: "fl \<Rightarrow> int option" where
  "float_key (Fin x) = (if x = of_int \<lfloor>x\<rfloor> then Some \<lfloor>x\<rfloor> else None)"
| "float_key _ = None"

fun band_unique :: "band \<Rightarrow> (int option \<times> nat) list" where
  "band_unique (ByteBand ws) = map (\<lambda>(w, n). (Some (uint w), n)) (unique_counts id ws)"
| "band_unique (FloatBand xs) = map (\<lambda>(x, n). (float_key x, n)) (unique_counts fl_rank xs)"

text \<open>One iteration of the loop over \<open>zip(unique_classes, counts)\<close>.\<close>

fun area_step :: "real \<Rightarrow> report \<times> real \<Rightarrow> int option \<times> nat \<Rightarrow> report \<times> real" where
  "area_step pixel_area_m2 (area_stats, total_area_m2) (val, cnt) =
     (case val of
        None \<Rightarrow> (area_stats, total_area_m2)
      | Some k \<Rightarrow>
          (case class_labels k of
             None \<Rightarrow> (area_stats, total_area_m2)
           | Some label \<Rightarrow>
               let area_m2 = real cnt * pixel_area_m2
               in (dict_set area_stats label
                     \<lparr>class_id = Some k, area_hectares = py_round (area_m2 / 10000) 2\<rparr>,
                   total_area_m2 + area_m2)))"

text \<open>The part of \<open>calculate_area\<close> after the file is closed.\<close>

definition area_report :: "real \<Rightarrow> band \<Rightarrow> report" where
  "area_report pixel_area_m2 classified_array =
     (let (area_stats, total_area_m2) =
            foldl (area_step pixel_area_m2) ([], 0) (band_unique classified_array)
      in dict_set area_stats ''Total_Analyzed_Area''
           \<lparr>class_id = None, area_hectares = py_round (total_area_m2 / 10000) 2\<rparr>)"

text \<open>
  \<open>calculate_default_transform\<close> is rasterio's: it is a parameter, called as in the source
  with the coordinate reference system of the file, the target \<open>'EPSG:3857'\<close>, the width
  and the height of the file and, for \<open>*src.bounds\<close> (which rasterio computes from the
  transform, the width and the height of the file), the transform of the file. It
  returns the transform, width and height of the grid in the target system, or raises.
  The array that \<open>reproject\<close> fills by nearest-neighbour resampling is not read again, so
  \<open>reproject\<close> is left out.
\<close>

type_synonym warp = "string \<Rightarrow> string \<Rightarrow> nat \<Rightarrow> nat \<Rightarrow> affine \<Rightarrow> error + affine \<times> nat \<times> nat"

definition calculate_area :: "warp \<Rightarrow> files \<Rightarrow> string \<Rightarrow> error + report" where
  "calculate_area calculate_default_transform fs classified_tif_path =
     (case rio_open fs classified_tif_path of
        Inl err \<Rightarrow> Inl err
      | Inr src \<Rightarrow>
          let classified_array = read1 src
          in (case calculate_default_transform (crs (profile src)) ''EPSG:3857''
                     (width (profile src)) (height (profile src)) (transform (profile src)) of
                Inl err \<Rightarrow> Inl err
              | Inr (transform', width', height') \<Rightarrow>
                  let pixel_size_x = t_a transform';
                      pixel_size_y = \<bar>t_e transform'\<bar>;
                      pixel_area_m2 = pixel_size_x * pixel_size_y
                  in Inr (area_report pixel_area_m2 (cells classified_array))))"

section \<open>The loop of calculate_area in closed form\<close>

text \<open>
  Auxiliary definitions for the proofs: what one item of \<open>zip(unique_classes, counts)\<close>
  adds to the report and to the running total, and the entry of a class value of an
  8-bit raster. The lemmas below relate them to \<open>area_step\<close> and \<open>area_report\<close>.
\<close>

definition item_entry :: "real \<Rightarrow> int option \<times> nat \<Rightarrow> (string \<times> stat) option" where
  "item_entry pixel_area_m2 item =
     (case fst item of
        None \<Rightarrow> None
      | Some k \<Rightarrow>
          (case class_labels k of
             None \<Rightarrow> None
           | Some label \<Rightarrow>
               Some (label, \<lparr>class_id = Some k,
                             area_hectares = py_round (real (snd item) * pixel_area_m2 / 10000) 2\<rparr>)))"

definition item_area :: "real \<Rightarrow> int option \<times> nat \<Rightarrow> real" where
  "item_area pixel_area_m2 item =
     (case fst item of
        None \<Rightarrow> 0
      | Some k \<Rightarrow> (case class_labels k of None \<Rightarrow> 0 | Some label \<Rightarrow> real (snd item) * pixel_area_m2))"

definition label_of :: "int \<Rightarrow> string" where
  "label_of k = (case class_labels k of None \<Rightarrow> [] | Some label \<Rightarrow> label)"

definition byte_entry :: "real \<Rightarrow> 8 word list \<Rightarrow> 8 word \<Rightarrow> string \<times> stat" where
  "byte_entry pixel_area_m2 ws w =
     (label_of (uint w),
      \<lparr>class_id = Some (uint w),
       area_hectares = py_round (real (count_list ws w) * pixel_area_m2 / 10000) 2\<rparr>)"

definition is_class :: "8 word \<Rightarrow> bool" where
  "is_class w = (1 \<le> w \<and> w \<le> 7)"

definition class_values :: "8 word list \<Rightarrow> 8 word list" where
  "class_values ws = filter is_class (sort_key id (remdups ws))"

section \<open>Reading the results\<close>

text \<open>
  The band of the file a call has written: the file found, after the call, at the path
  the call returned.
\<close>

definition written_band :: "(error + string) \<times> files \<Rightarrow> band option" where
  "written_band res =
     (case fst res of Inl err \<Rightarrow> None | Inr path \<Rightarrow> map_option band1 (snd res path))"

text \<open>
  The area a report gives under a label, its total, the sum of its per-class areas, and
  the distance between that sum and the total.
\<close>

definition per_class_sum :: "report \<Rightarrow> real" where
  "per_class_sum rep =
     (\<Sum>(label, s)\<leftarrow>filter (\<lambda>(label, s). label \<noteq> ''Total_Analyzed_Area'') rep. area_hectares s)"

definition reported_area :: "report \<Rightarrow> string \<Rightarrow> real option" where
  "reported_area rep label = map_option area_hectares (dict_get rep label)"

definition total_hectares :: "report \<Rightarrow> real option" where
  "total_hectares rep = reported_area rep ''Total_Analyzed_Area''"

definition report_gap :: "error + report \<Rightarrow> real option" where
  "report_gap res =
     (case res of
        Inl err \<Rightarrow> None
      | Inr rep \<Rightarrow> map_option (\<lambda>t. \<bar>per_class_sum rep - t\<bar>) (total_hectares rep))"

section \<open>Example inputs\<close>

definition ex_transform :: affine where
  "ex_transform = \<lparr>t_a = 10, t_b = 0, t_c = 500000, t_d = 0, t_e = - 10, t_f = 3800000\<rparr>"

definition ex_profile :: "nat \<Rightarrow> nat \<Rightarrow> profile" where
  "ex_profile h w = \<lparr>dtype = Float32, nodata = None, width = w, height = h, count = 1,
     crs = ''EPSG:32611'', transform = ex_transform, compress = None\<rparr>"

definition ex_dnbr :: gtiff where
  "ex_dnbr = \<lparr>profile = ex_profile 2 2,
     band1 = FloatBand [Fin (- 0.251), Fin 0.100, Fin 0.660, NaN]\<rparr>"

definition ex_pre :: gtiff where
  "ex_pre = \<lparr>profile = ex_profile 2 2, band1 = FloatBand [NaN, Fin 0.5, NaN, Fin 0.75]\<rparr>"

definition ex_post :: gtiff where
  "ex_post = \<lparr>profile = ex_profile 2 2, band1 = FloatBand [Fin 0.25, NaN, NaN, Fin 0.125]\<rparr>"

text \<open>A 1 by 2 raster whose profile names a nodata value.\<close>

definition ex_tagged :: "real \<Rightarrow> fl list \<Rightarrow> gtiff" where
  "ex_tagged tag xs =
     \<lparr>profile = (ex_profile 1 2)\<lparr>nodata := Some (Fin tag)\<rparr>, band1 = FloatBand xs\<rparr>"

definition ex_nodata :: gtiff where
  "ex_nodata = \<lparr>profile = ex_profile 2 2, band1 = FloatBand [NaN, NaN, NaN, NaN]\<rparr>"

definition ex_large :: gtiff where
  "ex_large = \<lparr>profile = ex_profile 100 100, band1 = FloatBand (replicate (100 * 100) (Fin 0.5))\<rparr>"

definition ex_small :: gtiff where
  "ex_small = \<lparr>profile = ex_profile 50 50, band1 = FloatBand (replicate (50 * 50) (Fin 0.5))\<rparr>"

definition ex_warp :: "real \<Rightarrow> real \<Rightarrow> warp" where
  "ex_warp sx sy src_crs dst_crs w h tr =
     Inr (\<lparr>t_a = sx, t_b = 0, t_c = 0, t_d = 0, t_e = - sy, t_f = 0\<rparr>, w, h)"

definition ex_classified :: "nat \<Rightarrow> nat \<Rightarrow> 8 word list \<Rightarrow> gtiff" where
  "ex_classified h w ws = \<lparr>profile = (ex_profile h w)\<lparr>dtype := UInt8\<rparr>, band1 = ByteBand ws\<rparr>"

section \<open>Properties of classify_severity\<close>

lemma classify_value_Fin:
  "classify_value (Fin v) =
     (if v \<le> - 0.251 then 1 else if v \<le> - 0.101 then 2 else if v \<le> 0.100 then 3
      else if v \<le> 0.270 then 4 else if v \<le> 0.440 then 5 else if v \<le> 0.660 then 6 else 7)"
  by (simp add: classify_value_def conditions_def classes_def)

lemma classify_severity_Some:
  "fs p = Some src \<Longrightarrow> nodata_fits (nodata (profile src)) UInt8 \<Longrightarrow>
   classify_severity fs p out =
     (Inr out,
      fs(out \<mapsto> \<lparr>profile = (profile src)\<lparr>dtype := UInt8, count := 1, compress := Some ''lzw''\<rparr>,
                  band1 = ByteBand (classify_array (band1 src))\<rparr>))"
  by (simp add: classify_severity_def rio_open_def read1_def rio_write_def)

text \<open>
  With a nodata value that an 8-bit unsigned integer cannot hold (NaN, or -9999), the call
  raises at the write and leaves a file of zeros.
\<close>

lemma classify_severity_raises:
  "fs p = Some src \<Longrightarrow> \<not> nodata_fits (nodata (profile src)) UInt8 \<Longrightarrow>
   classify_severity fs p out =
     (Inl (ValueError ''Given nodata value is beyond the valid range of its data type.''),
      fs(out \<mapsto> blank_file
           ((profile src)\<lparr>dtype := UInt8, count := 1, compress := Some ''lzw''\<rparr>)))"
  by (simp add: classify_severity_def rio_open_def read1_def rio_write_def)

text \<open>A dNBR file of 1 by 2 pixels with the nodata value -9999: no class is written.\<close>

lemma classify_severity_raises_example:
  "classify_severity [''d.tif'' \<mapsto> ex_tagged (- 9999) [Fin 0.5, Fin 0.25]] ''d.tif'' ''c.tif'' =
     (Inl (ValueError ''Given nodata value is beyond the valid range of its data type.''),
      [''d.tif'' \<mapsto> ex_tagged (- 9999) [Fin 0.5, Fin 0.25],
       ''c.tif'' \<mapsto>
         \<lparr>profile = (ex_profile 1 2)\<lparr>dtype := UInt8, count := 1, compress := Some ''lzw'',
                                         crs := [], transform := identity\<rparr>,
          band1 = ByteBand [0, 0]\<rparr>])"
  by (simp add: classify_severity_def rio_open_def read1_def rio_write_def ex_tagged_def
        ex_profile_def blank_file_def eval_nat_numeral)


lemma conditions_NaN: "conditions NaN = [False, False, False, False, False, False, False]"
  by (simp add: conditions_def)

lemma classify_value_special:
  "classify_value NaN = 0" "classify_value PInf = 7" "classify_value NInf = 1"
  by (simp_all add: classify_value_def conditions_def classes_def)

lemma classify_value_cases:
  "classify_value v \<in> {0, 1, 2, 3, 4, 5, 6, 7}"
  by (cases v) (simp_all add: classify_value_Fin classify_value_special)

lemma astype_uint8_classify_le: "unat (astype_uint8 (classify_value v)) \<le> 7"
  using classify_value_cases [of v] by (auto simp: astype_uint8_def)

lemma no_condition_class0:
  assumes "\<forall>c \<in> set (conditions v). \<not> c"
  shows "classify_value v = 0"
  using assms by (simp add: classify_value_def conditions_def classes_def)



text \<open>
  Claim C10. On finite samples the classification is monotone, and each finite sample
  satisfies exactly one of the seven conditions.
\<close>

theorem classify_value_monotone:
  assumes "v1 \<le> v2"
  shows "classify_value (Fin v1) \<le> classify_value (Fin v2)
       \<and> length (filter id (conditions (Fin v1))) = 1
       \<and> length (filter id (conditions (Fin v2))) = 1"
proof -
  have one: "length (filter id (conditions (Fin v))) = 1" for v
    by (simp add: conditions_def)
  have "classify_value (Fin v1) \<le> classify_value (Fin v2)"
    using assms by (simp add: classify_value_Fin)
  with one show ?thesis by simp
qed

theorem classify_value_monotone_witness:
  "(0.05::real) \<le> 0.5 \<and> classify_value (Fin 0.05) = 3 \<and> classify_value (Fin 0.5) = 6
    \<and> classify_value (Fin 0.05) \<le> classify_value (Fin 0.5)
    \<and> length (filter id (conditions (Fin 0.05))) = 1"
  using classify_value_monotone [of "0.05" "0.5"] by (simp add: classify_value_Fin)

text \<open>
  Claim C7. A sample that satisfies none of the seven conditions, as NaN does, is written
  as class 0; every sample of the classified file is in \<open>{0, \<dots>, 7}\<close>; the file has the
  shape and the geotransform of its source and holds 8-bit unsigned integers. This is the
  output of every call that returns: a call returns when the source can be read and has
  no nodata value or one between 0 and 255.
\<close>

theorem classify_severity_output:
  assumes "fs dnbr_tif_path = Some src" and "nodata_fits (nodata (profile src)) UInt8"
  shows "\<exists>dst ws. classify_severity fs dnbr_tif_path out = (Inr out, fs(out \<mapsto> dst))
           \<and> band1 dst = ByteBand ws
           \<and> dtype (profile dst) = UInt8
           \<and> shape (read1 dst) = shape (read1 src)
           \<and> transform (profile dst) = transform (profile src)
           \<and> length ws = length (astype_float32 (band1 src))
           \<and> (\<forall>i < length ws. unat (ws ! i) \<in> {0..7}
                 \<and> ((\<forall>c \<in> set (conditions (astype_float32 (band1 src) ! i)). \<not> c) \<longrightarrow> ws ! i = 0)
                 \<and> (astype_float32 (band1 src) ! i = NaN \<longrightarrow> ws ! i = 0))"
proof -
  let ?xs = "astype_float32 (band1 src)"
  let ?ws = "map (\<lambda>v. astype_uint8 (classify_value v)) ?xs"
  let ?dst = "\<lparr>profile = (profile src)\<lparr>dtype := UInt8, count := 1, compress := Some ''lzw''\<rparr>,
               band1 = ByteBand ?ws\<rparr>"
  have run: "classify_severity fs dnbr_tif_path out = (Inr out, fs(out \<mapsto> ?dst))"
    using assms by (simp add: classify_severity_Some classify_array_def)
  have px: "unat (?ws ! i) \<in> {0..7}
      \<and> ((\<forall>c \<in> set (conditions (?xs ! i)). \<not> c) \<longrightarrow> ?ws ! i = 0)
      \<and> (?xs ! i = NaN \<longrightarrow> ?ws ! i = 0)" if "i < length ?ws" for i
  proof -
    from that have at: "?ws ! i = astype_uint8 (classify_value (?xs ! i))" by simp
    show ?thesis
      unfolding at
      using astype_uint8_classify_le [of "?xs ! i"] no_condition_class0 [of "?xs ! i"]
      by (auto simp: astype_uint8_def classify_value_special)
  qed
  show ?thesis
    apply (rule exI [of _ ?dst], rule exI [of _ ?ws])
    using run px by (simp add: read1_def)
qed

theorem classify_severity_output_witness:
  "\<exists>dst ws. classify_severity [''dnbr.tif'' \<mapsto> ex_dnbr] ''dnbr.tif'' ''classified.tif''
              = (Inr ''classified.tif'', [''dnbr.tif'' \<mapsto> ex_dnbr, ''classified.tif'' \<mapsto> dst])
      \<and> band1 dst = ByteBand ws \<and> dtype (profile dst) = UInt8 \<and> shape (read1 dst) = (2, 2)
      \<and> transform (profile dst) = ex_transform \<and> ws ! 3 = 0"
proof -
  let ?fs = "[''dnbr.tif'' \<mapsto> ex_dnbr]"
  have h: "?fs ''dnbr.tif'' = Some ex_dnbr" "nodata_fits (nodata (profile ex_dnbr)) UInt8"
    by (simp_all add: ex_dnbr_def ex_profile_def)
  from classify_severity_output [of ?fs "''dnbr.tif''" ex_dnbr, OF h, of "''classified.tif''"]
  show ?thesis
    by (auto simp: ex_dnbr_def ex_profile_def read1_def)
qed

section \<open>Properties of the rounding to 32-bit floats\<close>

lemma pow2_powr: "pow2 e = 2 powr (of_int e)"
proof (cases "0 \<le> e")
  case True
  then have "(2::real) ^ nat e = 2 powr (of_int e)"
    by (simp add: powr_realpow [symmetric])
  with True show ?thesis by (simp add: pow2_def)
next
  case False
  then have "real (nat (- e)) = - of_int e" by simp
  then have "(2::real) ^ nat (- e) = 2 powr (- of_int e)"
    by (simp add: powr_realpow [symmetric])
  with False show ?thesis by (simp add: pow2_def powr_minus_divide)
qed

lemma pow2_less_iff: "pow2 a < pow2 b \<longleftrightarrow> a < b"
  by (simp add: pow2_powr)

lemma binade_from_low: "x < pow2 (e + 1) \<Longrightarrow> binade_from n e x = e"
  by (cases n) simp_all

lemma binade_from_eq:
  assumes "pow2 k \<le> x" and "x < pow2 (k + 1)" and "e \<le> k" and "k \<le> e + int n"
  shows "binade_from n e x = k"
  using assms
proof (induction n arbitrary: e)
  case 0
  then show ?case by simp
next
  case (Suc n)
  show ?case
  proof (cases "pow2 (e + 1) \<le> x")
    case True
    with Suc.prems(2) have "pow2 (e + 1) < pow2 (k + 1)" by linarith
    then have "e + 1 \<le> k" by (simp add: pow2_less_iff)
    with Suc.IH [of "e + 1"] Suc.prems True show ?thesis by simp
  next
    case False
    with Suc.prems(1) have "pow2 k < pow2 (e + 1)" by linarith
    then have "k \<le> e" by (simp add: pow2_less_iff)
    with Suc.prems(3) False show ?thesis by simp
  qed
qed

text \<open>The binade of a number between two consecutive powers of two.\<close>

lemma f32_binade_eq:
  assumes "pow2 k \<le> \<bar>x\<bar>" and "\<bar>x\<bar> < pow2 (k + 1)" and "- 126 \<le> k" and "k \<le> 127"
  shows "f32_binade x = k"
  unfolding f32_binade_def using assms by (intro binade_from_eq) simp_all

lemma f32_binade_0: "f32_binade 0 = - 126"
  unfolding f32_binade_def by (rule binade_from_low) (simp add: pow2_def)

lemma f32_binade_minus: "f32_binade (- x) = f32_binade x"
  by (simp add: f32_binade_def)

lemma round_half_even_of_int: "round_half_even (of_int m) = m"
  by (simp add: round_half_even_def)

lemma round_half_even_minus: "round_half_even (- y) = - round_half_even y"
proof (cases "y = of_int \<lfloor>y\<rfloor>")
  case True
  then obtain m :: int where "y = of_int m" ..
  then have "- y = of_int (- m)" by simp
  with \<open>y = of_int m\<close> show ?thesis by (simp only: round_half_even_of_int)
next
  case False
  then have c: "\<lceil>y\<rceil> = \<lfloor>y\<rfloor> + 1" by (simp add: ceiling_altdef)
  have f: "\<lfloor>- y\<rfloor> = - \<lfloor>y\<rfloor> - 1" using c by (simp add: floor_minus)
  show ?thesis
    unfolding round_half_even_def Let_def f by auto
qed

lemma round_f32_0: "round_f32 0 = Fin 0"
  by (simp add: round_f32_def Let_def round_half_even_def FLT_MAX_def)

lemma round_f32_not_NaN: "round_f32 x \<noteq> NaN"
  by (simp add: round_f32_def Let_def)

text \<open>The negation of a 32-bit float is a 32-bit float.\<close>

lemma is_f32_minus:
  assumes "is_f32 w"
  shows "is_f32 (- w)"
proof -
  let ?q = "pow2 (f32_binade w - 23)"
  let ?r = "of_int (round_half_even (w / ?q)) * ?q"
  from assms have r: "\<not> FLT_MAX < ?r" "\<not> ?r < - FLT_MAX" "?r = w"
    by (auto simp: is_f32_def round_f32_def Let_def split: if_splits)
  have "of_int (round_half_even (- w / ?q)) * ?q = - ?r"
    using round_half_even_minus [of "w / ?q"] by simp
  with r show ?thesis
    by (simp add: is_f32_def round_f32_def Let_def f32_binade_minus)
qed

text \<open>Some 32-bit floats.\<close>

lemma is_f32_examples:
  "is_f32 (1 / 2)" "is_f32 (1 / 4)" "is_f32 (5 / 8)" "is_f32 (- 9999.5)" "is_f32 22769"
proof -
  have "f32_binade (1 / 2) = - 1" "f32_binade (1 / 4) = - 2" "f32_binade (5 / 8) = - 1"
    "f32_binade (- 9999.5) = 13" "f32_binade 22769 = 14"
    by (rule f32_binade_eq; simp add: pow2_def)+
  then show "is_f32 (1 / 2)" "is_f32 (1 / 4)" "is_f32 (5 / 8)" "is_f32 (- 9999.5)" "is_f32 22769"
    by (simp_all add: is_f32_def round_f32_def pow2_def round_half_even_def FLT_MAX_def)
qed

lemma fsub_exact: "is_f32 (a - b) \<Longrightarrow> fsub (Fin a) (Fin b) = Fin (a - b)"
  by (simp add: is_f32_def)

section \<open>Properties of calculate_dnbr\<close>

lemma calculate_dnbr_Some:
  assumes "fs pre = Some src_pre" and "fs post = Some src_post"
    and "shape (read1 src_pre) = shape (read1 src_post)"
    and "nodata_fits (nodata (profile src_pre)) Float32"
  shows "calculate_dnbr fs pre post out =
     (Inr out,
      fs(out \<mapsto> \<lparr>profile = (profile src_pre)\<lparr>dtype := Float32, count := 1, compress := Some ''lzw''\<rparr>,
                  band1 = FloatBand (astype_float32
                            (band_sub (band_nan_to_num (band1 src_pre))
                                      (band_nan_to_num (band1 src_post))))\<rparr>))"
  using assms by (simp add: calculate_dnbr_def rio_open_def read1_def rio_write_def)

lemma nan_to_num_finite: "\<exists>r. nan_to_num x = Fin r"
  by (cases x) simp_all

lemma fsub_nan_to_num_not_NaN: "fsub (nan_to_num x) (nan_to_num y) \<noteq> NaN"
  using nan_to_num_finite [of x] nan_to_num_finite [of y] by (auto simp: round_f32_not_NaN)

text \<open>
  Claim C2 says that any no-data or NaN value is replaced by 0.0. Only NaN is: the arrays
  are read unmasked and the nodata value of the files is not consulted. In a raster
  whose nodata value is -9999, a pixel of that value against a valid post-fire pixel 0.5
  gives -9999.5, not the negation -0.5 of the valid pixel.
\<close>

theorem calculate_dnbr_nodata_tag_counterexample:
  "written_band (calculate_dnbr
      [''pre.tif'' \<mapsto> ex_tagged (- 9999) [Fin (- 9999), Fin 0.75],
       ''post.tif'' \<mapsto> ex_tagged (- 9999) [Fin 0.5, Fin 0.25]]
      ''pre.tif'' ''post.tif'' ''dnbr.tif'')
     = Some (FloatBand [Fin (- 9999.5), Fin 0.5])
   \<and> Fin (- 9999.5) \<noteq> Fin (- 0.5)"
proof -
  have "fsub (Fin (- 9999)) (Fin 0.5) = Fin (- 9999.5)"
    using fsub_exact [of "- 9999" "0.5"] is_f32_examples(4) by simp
  moreover have "fsub (Fin 0.75) (Fin 0.25) = Fin 0.5"
    using fsub_exact [of "0.75" "0.25"] is_f32_examples(1) by simp
  ultimately show ?thesis
    by (simp add: calculate_dnbr_def rio_open_def read1_def rio_write_def written_band_def
        ex_tagged_def ex_profile_def FLT_MAX_def)
qed

text \<open>
  Claim C2, amended. At every pixel a NaN sample is replaced by 0.0 (and an infinite one by
  the largest finite float of its sign), in the pre-fire and in the post-fire array
  independently, before the subtraction, and the output is the 32-bit float difference
  of the substituted samples: NaN against a valid post-fire sample \<open>w\<close> gives \<open>-w\<close>, a
  valid pre-fire sample \<open>v\<close> against NaN gives \<open>v\<close>, NaN against NaN gives 0.0, and NaN is
  never propagated. A sample that equals the nodata value of its file and is not NaN is
  not replaced. (The file is written when the nodata value of the pre-fire profile, which
  the output keeps, is one a 32-bit float can hold.)
\<close>

theorem calculate_dnbr_pixel:
  assumes "fs pre = Some src_pre" and "fs post = Some src_post"
    and "shape (read1 src_pre) = shape (read1 src_post)"
    and "nodata_fits (nodata (profile src_pre)) Float32"
    and "band1 src_pre = FloatBand xs" and "band1 src_post = FloatBand ys"
    and "i < length xs" and "i < length ys"
  shows "\<exists>zs. written_band (calculate_dnbr fs pre post out) = Some (FloatBand zs)
           \<and> length zs = min (length xs) (length ys)
           \<and> zs ! i = fsub (nan_to_num (xs ! i)) (nan_to_num (ys ! i))
           \<and> (xs ! i = Fin v \<and> ys ! i = Fin w \<longrightarrow> zs ! i = round_f32 (v - w))
           \<and> (xs ! i = Fin v \<and> ys ! i = NaN \<and> is_f32 v \<longrightarrow> zs ! i = Fin v)
           \<and> (xs ! i = NaN \<and> ys ! i = Fin w \<and> is_f32 w \<longrightarrow> zs ! i = Fin (- w))
           \<and> (xs ! i = NaN \<and> ys ! i = NaN \<longrightarrow> zs ! i = Fin 0)
           \<and> zs ! i \<noteq> NaN"
proof -
  let ?zs = "map2 fsub (map nan_to_num xs) (map nan_to_num ys)"
  have w: "written_band (calculate_dnbr fs pre post out) = Some (FloatBand ?zs)"
    using assms(1-6) by (simp add: calculate_dnbr_Some written_band_def)
  have at: "?zs ! i = fsub (nan_to_num (xs ! i)) (nan_to_num (ys ! i))"
    using assms(7,8) by simp
  have "xs ! i = Fin v \<and> ys ! i = Fin w \<longrightarrow> ?zs ! i = round_f32 (v - w)"
    and "xs ! i = Fin v \<and> ys ! i = NaN \<and> is_f32 v \<longrightarrow> ?zs ! i = Fin v"
    and "xs ! i = NaN \<and> ys ! i = Fin w \<and> is_f32 w \<longrightarrow> ?zs ! i = Fin (- w)"
    and "xs ! i = NaN \<and> ys ! i = NaN \<longrightarrow> ?zs ! i = Fin 0"
    and "?zs ! i \<noteq> NaN"
    unfolding at
    using fsub_nan_to_num_not_NaN [of "xs ! i" "ys ! i"] is_f32_minus [of w]
    by (auto simp: is_f32_def round_f32_0)
  with w at show ?thesis by (intro exI [of _ ?zs]) simp
qed

theorem calculate_dnbr_pixel_witness:
  "\<exists>zs. written_band (calculate_dnbr [''pre.tif'' \<mapsto> ex_pre, ''post.tif'' \<mapsto> ex_post]
            ''pre.tif'' ''post.tif'' ''dnbr.tif'') = Some (FloatBand zs)
        \<and> length zs = 4
        \<and> zs ! 0 = Fin (- 0.25) \<and> zs ! 1 = Fin 0.5 \<and> zs ! 2 = Fin 0 \<and> zs ! 3 = Fin 0.625"
proof -
  let ?fs = "[''pre.tif'' \<mapsto> ex_pre, ''post.tif'' \<mapsto> ex_post]"
  let ?xs = "[NaN, Fin 0.5, NaN, Fin 0.75]" and ?ys = "[Fin 0.25, NaN, NaN, Fin 0.125]"
  let ?out = "written_band (calculate_dnbr ?fs ''pre.tif'' ''post.tif'' ''dnbr.tif'')"
  have h: "?fs ''pre.tif'' = Some ex_pre" "?fs ''post.tif'' = Some ex_post"
    "shape (read1 ex_pre) = shape (read1 ex_post)"
    "nodata_fits (nodata (profile ex_pre)) Float32"
    "band1 ex_pre = FloatBand ?xs" "band1 ex_post = FloatBand ?ys"
    by (simp_all add: ex_pre_def ex_post_def ex_profile_def read1_def)
  note px = calculate_dnbr_pixel [of ?fs "''pre.tif''" ex_pre "''post.tif''" ex_post ?xs ?ys,
      OF h, where out = "''dnbr.tif''"]
  have f: "is_f32 0.25" "is_f32 0.5" "round_f32 (0.75 - 0.125) = Fin 0.625"
    using is_f32_examples(1,2,3) by (simp_all add: is_f32_def)
  from px [of 0 0 "0.25"] f(1) obtain zs where zs: "?out = Some (FloatBand zs)" "length zs = 4"
    and z0: "zs ! 0 = Fin (- 0.25)" by auto
  from px [of 1 "0.5" 0] f(2) zs(1) have z1: "zs ! 1 = Fin 0.5" by auto
  from px [of 2 0 0] zs(1) have z2: "zs ! 2 = Fin 0" by auto
  from px [of 3 "0.75" "0.125"] f(3) zs(1) have z3: "zs ! 3 = Fin 0.625" by auto
  from zs z0 z1 z2 z3 show ?thesis by blast
qed

text \<open>
  Claim C3. When the two rasters differ in width or height, \<open>calculate_dnbr\<close> raises its
  size-mismatch error (\<open>ValueError('Image size mismatch.')\<close>), which is not an I/O error,
  and the files are left as they were: nothing is written at the output path.
\<close>

theorem calculate_dnbr_shape_mismatch:
  assumes "fs pre = Some src_pre" and "fs post = Some src_post"
    and "(height (profile src_pre), width (profile src_pre))
           \<noteq> (height (profile src_post), width (profile src_post))"
  shows "calculate_dnbr fs pre post out = (Inl (ValueError ''Image size mismatch.''), fs)
       \<and> (\<forall>path. fst (calculate_dnbr fs pre post out) \<noteq> Inl (RasterioIOError path))
       \<and> snd (calculate_dnbr fs pre post out) out = fs out"
  using assms by (simp add: calculate_dnbr_def rio_open_def read1_def)

theorem calculate_dnbr_shape_mismatch_witness:
  "calculate_dnbr [''pre.tif'' \<mapsto> ex_large, ''post.tif'' \<mapsto> ex_small] ''pre.tif'' ''post.tif'' ''dnbr.tif''
     = (Inl (ValueError ''Image size mismatch.''), [''pre.tif'' \<mapsto> ex_large, ''post.tif'' \<mapsto> ex_small])
   \<and> snd (calculate_dnbr [''pre.tif'' \<mapsto> ex_large, ''post.tif'' \<mapsto> ex_small]
             ''pre.tif'' ''post.tif'' ''dnbr.tif'') ''dnbr.tif'' = None"
  using calculate_dnbr_shape_mismatch [of "[''pre.tif'' \<mapsto> ex_large, ''post.tif'' \<mapsto> ex_small]"
      "''pre.tif''" ex_large "''post.tif''" ex_small "''dnbr.tif''"]
  by (simp add: ex_large_def ex_small_def ex_profile_def)

text \<open>
  Claim C8 says that the output is 0.0 everywhere when every pixel of both inputs is
  no-data. It is so for the no-data that is NaN; the nodata value of the files is not
  consulted, so two rasters that consist of their nodata values -9999 and -32768 give
  22769 at every pixel.
\<close>

theorem calculate_dnbr_all_tagged_counterexample:
  "written_band (calculate_dnbr
      [''pre.tif'' \<mapsto> ex_tagged (- 9999) [Fin (- 9999), Fin (- 9999)],
       ''post.tif'' \<mapsto> ex_tagged (- 32768) [Fin (- 32768), Fin (- 32768)]]
      ''pre.tif'' ''post.tif'' ''dnbr.tif'')
     = Some (FloatBand [Fin 22769, Fin 22769])
   \<and> Fin 22769 \<noteq> Fin 0"
proof -
  have "fsub (Fin (- 9999)) (Fin (- 32768)) = Fin 22769"
    using fsub_exact [of "- 9999" "- 32768"] is_f32_examples(5) by simp
  then show ?thesis
    by (simp add: calculate_dnbr_def rio_open_def read1_def rio_write_def written_band_def
        ex_tagged_def ex_profile_def FLT_MAX_def)
qed

text \<open>
  Claim C8, amended. When every sample of both inputs is NaN, every sample of the dNBR
  output is exactly 0.0.
\<close>

theorem calculate_dnbr_all_nodata:
  assumes "fs pre = Some src_pre" and "fs post = Some src_post"
    and "shape (read1 src_pre) = shape (read1 src_post)"
    and "nodata_fits (nodata (profile src_pre)) Float32"
    and "band1 src_pre = FloatBand xs" and "band1 src_post = FloatBand ys"
    and "\<forall>x \<in> set xs. x = NaN" and "\<forall>y \<in> set ys. y = NaN"
  shows "\<exists>zs. written_band (calculate_dnbr fs pre post out) = Some (FloatBand zs)
           \<and> length zs = min (length xs) (length ys)
           \<and> (\<forall>z \<in> set zs. z = Fin 0)"
proof -
  let ?zs = "map2 fsub (map nan_to_num xs) (map nan_to_num ys)"
  have w: "written_band (calculate_dnbr fs pre post out) = Some (FloatBand ?zs)"
    using assms(1-6) by (simp add: calculate_dnbr_Some written_band_def)
  have "z = Fin 0" if "z \<in> set ?zs" for z
  proof -
    from that obtain x y where "(x, y) \<in> set (zip (map nan_to_num xs) (map nan_to_num ys))"
      and z: "z = fsub x y" by auto
    then have "x \<in> set (map nan_to_num xs)" and "y \<in> set (map nan_to_num ys)"
      by (auto dest: set_zip_leftD set_zip_rightD)
    with assms(7,8) have "x = Fin 0" and "y = Fin 0" by auto
    with z show ?thesis by (simp add: round_f32_0)
  qed
  with w show ?thesis by (intro exI [of _ ?zs]) simp
qed

theorem calculate_dnbr_all_nodata_witness:
  "written_band (calculate_dnbr [''pre.tif'' \<mapsto> ex_nodata, ''post.tif'' \<mapsto> ex_nodata]
      ''pre.tif'' ''post.tif'' ''dnbr.tif'')
     = Some (FloatBand [Fin 0, Fin 0, Fin 0, Fin 0])"
proof -
  let ?fs = "[''pre.tif'' \<mapsto> ex_nodata, ''post.tif'' \<mapsto> ex_nodata]"
  let ?xs = "[NaN, NaN, NaN, NaN]"
  have h: "?fs ''pre.tif'' = Some ex_nodata" "?fs ''post.tif'' = Some ex_nodata"
    "shape (read1 ex_nodata) = shape (read1 ex_nodata)"
    "nodata_fits (nodata (profile ex_nodata)) Float32"
    "band1 ex_nodata = FloatBand ?xs" "band1 ex_nodata = FloatBand ?xs"
    "\<forall>x \<in> set ?xs. x = NaN" "\<forall>x \<in> set ?xs. x = NaN"
    by (simp_all add: ex_nodata_def ex_profile_def)
  from calculate_dnbr_all_nodata [of ?fs "''pre.tif''" ex_nodata "''post.tif''" ex_nodata ?xs ?xs,
      OF h, of "''dnbr.tif''"]
  obtain zs where out: "written_band (calculate_dnbr ?fs ''pre.tif'' ''post.tif'' ''dnbr.tif'')
      = Some (FloatBand zs)"
    and len: "length zs = min (length ?xs) (length ?xs)" and all0: "\<forall>z \<in> set zs. z = Fin 0"
    by blast
  from len have "length zs = 4" by simp
  with all0 have "zs = replicate 4 (Fin 0)"
    by (intro replicate_eqI) auto
  with out show ?thesis by (simp add: eval_nat_numeral)
qed

section \<open>Properties of calculate_area\<close>

subsection \<open>The loop\<close>

lemma dict_set_fresh: "k \<notin> fst ` set kvs \<Longrightarrow> dict_set kvs k v = kvs @ [(k, v)]"
  by (induction kvs) auto

lemma area_step_entry:
  "area_step pa (stats, tot) item =
     (case item_entry pa item of
        None \<Rightarrow> (stats, tot)
      | Some (label, s) \<Rightarrow> (dict_set stats label s, tot + item_area pa item))"
  by (cases item) (simp add: item_entry_def item_area_def Let_def split: option.splits)

lemma item_area_None: "item_entry pa item = None \<Longrightarrow> item_area pa item = 0"
  by (simp add: item_entry_def item_area_def split: option.splits)

lemma foldl_area_step:
  assumes "distinct (map fst (stats @ List.map_filter (item_entry pa) items))"
  shows "foldl (area_step pa) (stats, tot) items =
           (stats @ List.map_filter (item_entry pa) items,
            tot + sum_list (map (item_area pa) items))"
  using assms
proof (induction items arbitrary: stats tot)
  case Nil
  then show ?case by (simp add: List.map_filter_simps)
next
  case (Cons item items)
  show ?case
  proof (cases "item_entry pa item")
    case None
    with Cons show ?thesis
      by (simp add: area_step_entry List.map_filter_simps item_area_None)
  next
    case (Some e)
    obtain label s where e: "e = (label, s)" by (cases e)
    from Cons.prems Some e have fresh: "label \<notin> fst ` set stats"
      by (auto simp: List.map_filter_simps)
    from Cons.prems Some e
    have d: "distinct (map fst ((stats @ [(label, s)]) @ List.map_filter (item_entry pa) items))"
      by (simp add: List.map_filter_simps)
    show ?thesis
      using Cons.IH [OF d] Some e fresh
      by (simp add: area_step_entry List.map_filter_simps dict_set_fresh add.assoc)
  qed
qed

lemma class_labels_simps:
  "class_labels 1 = Some ''Enhanced Regrowth, High''"
  "class_labels 2 = Some ''Enhanced Regrowth, Moderate''"
  "class_labels 3 = Some ''Unburned''"
  "class_labels 4 = Some ''Low-Severity Burn''"
  "class_labels 5 = Some ''Moderate-Severity Burn''"
  "class_labels 6 = Some ''High-Severity Burn''"
  "class_labels 7 = Some ''Extreme-Severity Burn''"
  by (simp_all add: class_labels_def)

lemma class_labels_None: "k < 1 \<or> 7 < k \<Longrightarrow> class_labels k = None"
  by (auto simp: class_labels_def)

lemma int_1_7_cases:
  "1 \<le> k \<Longrightarrow> k \<le> 7 \<Longrightarrow> k = 1 \<or> k = 2 \<or> k = 3 \<or> k = 4 \<or> k = 5 \<or> k = 6 \<or> k = (7::int)"
  by arith

lemma class_labels_dom: "(class_labels k \<noteq> None) = (1 \<le> k \<and> k \<le> 7)"
proof
  assume "class_labels k \<noteq> None"
  then show "1 \<le> k \<and> k \<le> 7"
    using class_labels_None [of k] by force
next
  assume "1 \<le> k \<and> k \<le> 7"
  then show "class_labels k \<noteq> None"
    using int_1_7_cases [of k] by (auto simp: class_labels_simps)
qed

lemma class_labels_inj:
  assumes "class_labels j = Some label" and "class_labels k = Some label"
  shows "j = k"
proof -
  from assms have "1 \<le> j \<and> j \<le> 7" and "1 \<le> k \<and> k \<le> 7"
    using class_labels_dom [of j] class_labels_dom [of k] by auto
  then have "j = 1 \<or> j = 2 \<or> j = 3 \<or> j = 4 \<or> j = 5 \<or> j = 6 \<or> j = 7"
    and "k = 1 \<or> k = 2 \<or> k = 3 \<or> k = 4 \<or> k = 5 \<or> k = 6 \<or> k = 7"
    by (simp_all add: int_1_7_cases)
  with assms show ?thesis
    by (elim disjE) (auto simp: class_labels_simps)
qed

lemma class_labels_not_total: "class_labels k \<noteq> Some ''Total_Analyzed_Area''"
proof (cases "1 \<le> k \<and> k \<le> 7")
  case True
  then have "k = 1 \<or> k = 2 \<or> k = 3 \<or> k = 4 \<or> k = 5 \<or> k = 6 \<or> k = 7"
    by (simp add: int_1_7_cases)
  then show ?thesis by (elim disjE) (simp_all add: class_labels_simps)
next
  case False
  then show ?thesis using class_labels_dom [of k] by auto
qed

lemma is_class_uint: "is_class w = (1 \<le> uint w \<and> uint w \<le> 7)"
  by (simp add: is_class_def word_le_def)

lemma item_entry_byte:
  "item_entry pa (Some (uint w), count_list ws w) =
     (if is_class w then Some (byte_entry pa ws w) else None)"
proof (cases "is_class w")
  case True
  then obtain label where "class_labels (uint w) = Some label"
    using class_labels_dom [of "uint w"] by (auto simp: is_class_uint)
  with True show ?thesis
    by (simp add: item_entry_def byte_entry_def label_of_def)
next
  case False
  then have "class_labels (uint w) = None"
    using class_labels_dom [of "uint w"] by (auto simp: is_class_uint)
  with False show ?thesis by (simp add: item_entry_def)
qed

lemma item_area_byte:
  "item_area pa (Some (uint w), count_list ws w) =
     (if is_class w then real (count_list ws w) * pa else 0)"
proof (cases "is_class w")
  case True
  then obtain label where "class_labels (uint w) = Some label"
    using class_labels_dom [of "uint w"] by (auto simp: is_class_uint)
  with True show ?thesis by (simp add: item_area_def)
next
  case False
  then have "class_labels (uint w) = None"
    using class_labels_dom [of "uint w"] by (auto simp: is_class_uint)
  with False show ?thesis by (simp add: item_area_def)
qed

lemma band_unique_byte:
  "band_unique (ByteBand ws) =
     map (\<lambda>w. (Some (uint w), count_list ws w)) (sort_key id (remdups ws))"
  by (simp add: unique_counts_def)

lemma map_filter_items:
  "List.map_filter (item_entry pa) (map (\<lambda>w. (Some (uint w), count_list ws w)) us) =
     map (byte_entry pa ws) (filter is_class us)"
  by (induction us) (simp_all add: List.map_filter_simps item_entry_byte)

lemma sum_item_area:
  "sum_list (map (item_area pa) (map (\<lambda>w. (Some (uint w), count_list ws w)) us)) =
     (\<Sum>w\<leftarrow>filter is_class us. real (count_list ws w) * pa)"
  by (induction us) (simp_all add: item_area_byte)

lemma label_of_inj:
  assumes "is_class v" and "is_class w" and "label_of (uint v) = label_of (uint w)"
  shows "v = w"
proof -
  from assms(1,2) obtain a b
    where a: "class_labels (uint v) = Some a" and b: "class_labels (uint w) = Some b"
    using class_labels_dom [of "uint v"] class_labels_dom [of "uint w"]
    by (auto simp: is_class_uint)
  with assms(3) have "a = b" by (simp add: label_of_def)
  with a b have "uint v = uint w" by (auto intro: class_labels_inj)
  then show ?thesis by (simp add: word_uint_eq_iff)
qed

lemma label_of_not_total: "label_of k \<noteq> ''Total_Analyzed_Area''"
  using class_labels_not_total [of k] by (cases "class_labels k") (simp_all add: label_of_def)

lemma distinct_byte_entries:
  assumes "distinct us"
  shows "distinct (map fst (map (byte_entry pa ws) (filter is_class us)))"
proof -
  have "map fst (map (byte_entry pa ws) (filter is_class us))
      = map (\<lambda>w. label_of (uint w)) (filter is_class us)"
    by (simp add: byte_entry_def comp_def)
  moreover have "inj_on (\<lambda>w. label_of (uint w)) (set (filter is_class us))"
    by (rule inj_onI) (auto intro: label_of_inj)
  ultimately show ?thesis using assms by (simp only: distinct_map distinct_filter simp_thms)
qed

text \<open>The report for an 8-bit raster, in closed form.\<close>

lemma area_report_byte:
  "area_report pa (ByteBand ws) =
     map (byte_entry pa ws) (class_values ws) @
     [(''Total_Analyzed_Area'',
       \<lparr>class_id = None,
        area_hectares = py_round ((\<Sum>w\<leftarrow>class_values ws. real (count_list ws w) * pa) / 10000) 2\<rparr>)]"
proof -
  let ?us = "sort_key id (remdups ws)"
  let ?items = "map (\<lambda>w. (Some (uint w), count_list ws w)) ?us"
  have "distinct ?us" by simp
  then have d: "distinct (map fst ([] @ List.map_filter (item_entry pa) ?items))"
    by (simp add: map_filter_items distinct_byte_entries del: map_map)
  have loop: "foldl (area_step pa) ([], 0) (band_unique (ByteBand ws)) =
      (map (byte_entry pa ws) (class_values ws),
       (\<Sum>w\<leftarrow>class_values ws. real (count_list ws w) * pa))"
    unfolding band_unique_byte foldl_area_step [OF d]
    by (simp add: map_filter_items sum_item_area class_values_def del: map_map)
  have fresh: "''Total_Analyzed_Area'' \<notin> fst ` set (map (byte_entry pa ws) (class_values ws))"
    by (auto simp: byte_entry_def label_of_not_total [THEN not_sym])
  show ?thesis
    unfolding area_report_def loop using fresh by (simp add: dict_set_fresh)
qed

subsection \<open>Rounding\<close>

lemma round_half_even_err: "\<bar>of_int (round_half_even y) - y\<bar> \<le> 1 / 2"
proof -
  have "of_int \<lfloor>y\<rfloor> \<le> y" and "y < of_int \<lfloor>y\<rfloor> + 1"
    by linarith+
  then show ?thesis
    by (auto simp: round_half_even_def Let_def)
qed

lemma py_round_err: "\<bar>py_round x 2 - x\<bar> \<le> 1 / 200"
proof -
  have "\<bar>of_int (round_half_even (x * 100)) - x * 100\<bar> \<le> 1 / 2"
    by (rule round_half_even_err)
  then show ?thesis
    by (simp add: py_round_def field_simps abs_le_iff)
qed

lemma py_round_hundredths: "py_round x 2 = of_int (round_half_even (x * 100)) / 100"
  by (simp add: py_round_def)

subsection \<open>The entries of the report\<close>

lemma calculate_area_byte:
  assumes "fs classified_tif_path = Some src" and "band1 src = ByteBand ws"
    and "warp (crs (profile src)) ''EPSG:3857'' (width (profile src)) (height (profile src))
           (transform (profile src)) = Inr (tr, w', h')"
  shows "calculate_area warp fs classified_tif_path =
           Inr (area_report (t_a tr * \<bar>t_e tr\<bar>) (ByteBand ws))"
  using assms by (simp add: calculate_area_def rio_open_def read1_def)

lemma set_class_values: "set (class_values ws) = {w \<in> set ws. is_class w}"
  by (auto simp: class_values_def)

lemma distinct_class_values: "distinct (class_values ws)"
  by (simp add: class_values_def)

lemma uint_class_word:
  assumes "1 \<le> k" and "k \<le> 7"
  shows "uint (word_of_int k :: 8 word) = k"
  using int_1_7_cases [OF assms] by (elim disjE) simp_all

lemma dict_get_area_report_byte:
  assumes "class_labels k = Some label" and "word_of_int k \<in> set ws"
  shows "dict_get (area_report pa (ByteBand ws)) label =
           Some \<lparr>class_id = Some k,
                 area_hectares = py_round (real (count_list ws (word_of_int k)) * pa / 10000) 2\<rparr>"
proof -
  let ?w = "word_of_int k :: 8 word"
  let ?es = "map (byte_entry pa ws) (class_values ws)"
  from assms(1) have k: "1 \<le> k" "k \<le> 7"
    using class_labels_dom [of k] by auto
  then have u: "uint ?w = k" by (rule uint_class_word)
  with k have "is_class ?w" by (simp add: is_class_uint)
  with assms(2) have "?w \<in> set (class_values ws)" by (simp add: set_class_values)
  then have "byte_entry pa ws ?w \<in> set ?es" by simp
  moreover have "byte_entry pa ws ?w = (label, \<lparr>class_id = Some k,
      area_hectares = py_round (real (count_list ws ?w) * pa / 10000) 2\<rparr>)"
    using assms(1) u by (simp add: byte_entry_def label_of_def)
  moreover have "distinct (map fst ?es)"
    unfolding class_values_def by (rule distinct_byte_entries) simp
  ultimately have "map_of ?es label = Some \<lparr>class_id = Some k,
      area_hectares = py_round (real (count_list ws ?w) * pa / 10000) 2\<rparr>"
    by (simp only: map_of_is_SomeI)
  then show ?thesis
    by (simp add: area_report_byte dict_get_def map_add_Some_iff del: map_map)
qed

text \<open>
  Claim C5. The area of a class is the number of occurrences of the class value in the
  array read from the file (the original, unprojected array), times the one pixel area
  \<open>a * |e|\<close> of the transform that \<open>calculate_default_transform\<close> returns for the target
  \<open>'EPSG:3857'\<close>, divided by 10000, rounded to two decimal places: a hundredth within
  0.005 of the unrounded value. Both are stated with a margin of one millionth, which
  covers the binary representation of the computed area.
\<close>

theorem calculate_area_class_entry:
  assumes "fs classified_tif_path = Some src" and "band1 src = ByteBand ws"
    and "warp (crs (profile src)) ''EPSG:3857'' (width (profile src)) (height (profile src))
           (transform (profile src)) = Inr (tr, w', h')"
    and "class_labels k = Some label" and "word_of_int k \<in> set ws"
  shows "\<exists>rep a. calculate_area warp fs classified_tif_path = Inr rep
           \<and> dict_get rep label = Some \<lparr>class_id = Some k, area_hectares = a\<rparr>
           \<and> \<bar>a - real (count_list ws (word_of_int k)) * (t_a tr * \<bar>t_e tr\<bar>) / 10000\<bar>
                 \<le> 0.005 + 1 / 10 ^ 6
           \<and> (\<exists>n::int. \<bar>a - of_int n / 100\<bar> \<le> 1 / 10 ^ 6)"
proof -
  let ?x = "real (count_list ws (word_of_int k)) * (t_a tr * \<bar>t_e tr\<bar>) / 10000"
  have "calculate_area warp fs classified_tif_path =
      Inr (area_report (t_a tr * \<bar>t_e tr\<bar>) (ByteBand ws))"
    using assms(1-3) by (rule calculate_area_byte)
  moreover have "dict_get (area_report (t_a tr * \<bar>t_e tr\<bar>) (ByteBand ws)) label =
      Some \<lparr>class_id = Some k, area_hectares = py_round ?x 2\<rparr>"
    using assms(4,5) by (rule dict_get_area_report_byte)
  moreover have "\<exists>n::int. \<bar>py_round ?x 2 - of_int n / 100\<bar> \<le> 1 / 10 ^ 6"
    by (rule exI [of _ "round_half_even (?x * 100)"]) (simp add: py_round_hundredths)
  moreover have "\<bar>py_round ?x 2 - ?x\<bar> \<le> 0.005 + 1 / 10 ^ 6"
    using py_round_err [of ?x] by simp
  ultimately show ?thesis by blast
qed

theorem calculate_area_class_entry_witness:
  "\<exists>rep a. calculate_area (ex_warp 12 12) [''classified.tif'' \<mapsto> ex_classified 2 2 [3, 0, 4, 3]]
            ''classified.tif'' = Inr rep
         \<and> dict_get rep ''Unburned'' = Some \<lparr>class_id = Some 3, area_hectares = a\<rparr>
         \<and> \<bar>a - 0.0288\<bar> \<le> 0.005 + 1 / 10 ^ 6"
proof -
  let ?src = "ex_classified 2 2 [3, 0, 4, 3]"
  let ?fs = "[''classified.tif'' \<mapsto> ?src]"
  have h: "?fs ''classified.tif'' = Some ?src"
    "band1 ?src = ByteBand [3, 0, 4, 3]"
    "ex_warp 12 12 (crs (profile ?src)) ''EPSG:3857'' (width (profile ?src))
       (height (profile ?src)) (transform (profile ?src))
       = Inr (\<lparr>t_a = 12, t_b = 0, t_c = 0, t_d = 0, t_e = - 12, t_f = 0\<rparr>, 2, 2)"
    "class_labels 3 = Some ''Unburned''" "word_of_int 3 \<in> set [3, 0, 4, 3 :: 8 word]"
    by (simp_all add: ex_classified_def ex_warp_def ex_profile_def class_labels_simps)
  from calculate_area_class_entry [of ?fs "''classified.tif''" ?src
      "[3, 0, 4, 3]" "ex_warp 12 12" _ 2 2 3 "''Unburned''", OF h]
  obtain rep a where "calculate_area (ex_warp 12 12) ?fs ''classified.tif'' = Inr rep"
    and "dict_get rep ''Unburned'' = Some \<lparr>class_id = Some 3, area_hectares = a\<rparr>"
    and "\<bar>a - real (count_list [3, 0, 4, 3 :: 8 word] (word_of_int 3))
            * (t_a \<lparr>t_a = 12, t_b = 0, t_c = 0, t_d = 0, t_e = - 12, t_f = 0\<rparr>
               * \<bar>t_e \<lparr>t_a = 12, t_b = 0, t_c = 0, t_d = 0, t_e = - 12, t_f = 0\<rparr>\<bar>) / 10000\<bar>
         \<le> 0.005 + 1 / 10 ^ 6"
    by blast
  moreover from this(3) have "\<bar>a - 0.0288\<bar> \<le> 0.005 + 1 / 10 ^ 6" by simp
  ultimately show ?thesis by blast
qed

lemma count_list_filter: "count_list (filter P xs) x = (if P x then count_list xs x else 0)"
  by (induction xs) auto

lemma sum_count_class_values:
  "(\<Sum>w\<leftarrow>class_values ws. count_list ws w) = length (filter is_class ws)"
proof -
  let ?X = "{w \<in> set ws. is_class w}"
  have "(\<Sum>w\<leftarrow>class_values ws. count_list ws w) = sum (count_list ws) ?X"
    by (simp add: sum_list_distinct_conv_sum_set distinct_class_values set_class_values)
  also have "\<dots> = sum (count_list (filter is_class ws)) ?X"
    by (rule sum.cong) (simp_all add: count_list_filter)
  also have "\<dots> = length (filter is_class ws)"
    by (rule sum_count_set) auto
  finally show ?thesis .
qed

lemma sum_list_real_mult: "(\<Sum>x\<leftarrow>xs. real (f x) * c) = real (\<Sum>x\<leftarrow>xs. f x) * c"
  by (induction xs) (simp_all add: algebra_simps)

lemma total_area_class_values:
  "(\<Sum>w\<leftarrow>class_values ws. real (count_list ws w) * pa) = real (length (filter is_class ws)) * pa"
  by (simp add: sum_list_real_mult sum_count_class_values)

lemma fst_byte_entry: "fst (byte_entry pa ws w) = label_of (uint w)"
  by (simp add: byte_entry_def)

lemma total_not_class_entry:
  "''Total_Analyzed_Area'' \<notin> fst ` set (map (byte_entry pa ws) us)"
  by (auto simp: fst_byte_entry label_of_not_total [THEN not_sym])

lemma total_hectares_area_report_byte:
  "total_hectares (area_report pa (ByteBand ws)) =
     Some (py_round (real (length (filter is_class ws)) * pa / 10000) 2)"
proof -
  have "map_of (map (byte_entry pa ws) (class_values ws)) ''Total_Analyzed_Area'' = None"
    using total_not_class_entry [of pa ws "class_values ws"]
    by (simp only: map_of_eq_None_iff not_False_eq_True)
  then show ?thesis
    by (simp add: area_report_byte total_hectares_def reported_area_def dict_get_def
        total_area_class_values map_add_def del: map_map)
qed

lemma keys_area_report_byte:
  "fst ` set (area_report pa (ByteBand ws)) =
     {label. \<exists>k. class_labels k = Some label \<and> word_of_int k \<in> set ws}
       \<union> {''Total_Analyzed_Area''}"
proof -
  let ?L = "{label. \<exists>k. class_labels k = Some label \<and> word_of_int k \<in> set ws}"
  have "fst ` set (map (byte_entry pa ws) (class_values ws)) = ?L"
  proof (intro set_eqI iffI)
    fix label
    assume "label \<in> fst ` set (map (byte_entry pa ws) (class_values ws))"
    then obtain w where w: "w \<in> set ws" "is_class w" and l: "label = label_of (uint w)"
      by (auto simp: set_class_values fst_byte_entry)
    from w(2) obtain l' where l': "class_labels (uint w) = Some l'"
      using class_labels_dom [of "uint w"] by (auto simp: is_class_uint)
    with l have "class_labels (uint w) = Some label" by (simp add: label_of_def)
    moreover from w(1) have "word_of_int (uint w) \<in> set ws" by simp
    ultimately show "label \<in> ?L" by blast
  next
    fix label
    assume "label \<in> ?L"
    then obtain k where k: "class_labels k = Some label" "word_of_int k \<in> set ws" by blast
    let ?w = "word_of_int k :: 8 word"
    from k(1) have b: "1 \<le> k" "k \<le> 7" using class_labels_dom [of k] by auto
    then have u: "uint ?w = k" by (rule uint_class_word)
    with b have "is_class ?w" by (simp add: is_class_uint)
    with k(2) have "?w \<in> set (class_values ws)" by (simp add: set_class_values)
    moreover from k(1) u have "fst (byte_entry pa ws ?w) = label"
      by (simp add: fst_byte_entry label_of_def)
    ultimately show "label \<in> fst ` set (map (byte_entry pa ws) (class_values ws))"
      by force
  qed
  then show ?thesis
    by (simp add: area_report_byte image_Un del: map_map set_map)
qed

lemma class_id_area_report_byte:
  assumes "(label, s) \<in> set (area_report pa (ByteBand ws))"
  shows "class_id s \<noteq> Some 0"
proof -
  from assms consider "s = \<lparr>class_id = None, area_hectares =
      py_round ((\<Sum>w\<leftarrow>class_values ws. real (count_list ws w) * pa) / 10000) 2\<rparr>"
    | w where "w \<in> set (class_values ws)" "(label, s) = byte_entry pa ws w"
    by (auto simp: area_report_byte)
  then show ?thesis
  proof cases
    case 1
    then show ?thesis by simp
  next
    case 2
    then have "is_class w" and "class_id s = Some (uint w)"
      by (auto simp: set_class_values byte_entry_def)
    then show ?thesis by (simp add: is_class_uint)
  qed
qed

text \<open>The report depends on the array through the counts of the class values 1 to 7 only.\<close>

lemma sorted_class_values: "sorted (class_values ws)"
proof -
  have "sorted (map id (sort_key id (remdups ws)))" by (rule sorted_sort_key)
  then have "sorted (map id (filter is_class (sort_key id (remdups ws))))"
    by (rule sorted_filter)
  then show ?thesis by (simp add: class_values_def)
qed

lemma class_values_cong:
  assumes "\<forall>w. is_class w \<longrightarrow> count_list ws' w = count_list ws w"
  shows "class_values ws' = class_values ws"
proof (rule sorted_distinct_set_unique)
  show "set (class_values ws') = set (class_values ws)"
  proof -
    have "w \<in> set ws' \<longleftrightarrow> w \<in> set ws" if "is_class w" for w
      using assms that count_list_0_iff [of ws' w] count_list_0_iff [of ws w] by simp
    then show ?thesis by (auto simp: set_class_values)
  qed
qed (simp_all add: sorted_class_values distinct_class_values)

lemma area_report_cong:
  assumes "\<forall>w. is_class w \<longrightarrow> count_list ws' w = count_list ws w"
  shows "area_report pa (ByteBand ws') = area_report pa (ByteBand ws)"
proof -
  have cv: "class_values ws' = class_values ws"
    using assms by (rule class_values_cong)
  have e: "map (byte_entry pa ws') (class_values ws) = map (byte_entry pa ws) (class_values ws)"
    using assms by (intro map_cong) (simp_all add: set_class_values byte_entry_def)
  have t: "map (\<lambda>w. real (count_list ws' w) * pa) (class_values ws)
      = map (\<lambda>w. real (count_list ws w) * pa) (class_values ws)"
    using assms by (intro map_cong) (simp_all add: set_class_values)
  show ?thesis
    unfolding area_report_byte cv e t ..
qed

text \<open>
  Claim C9. The report has a per-class entry exactly for the class values 1 to 7 that occur
  in the array, and the total entry; no entry stands for class 0. The pixels of class 0
  (and of any value outside 1 to 7) count for nothing: the report is the same for every
  array with the same numbers of pixels of the classes 1 to 7, and the total is the area
  of the pixels of the classes 1 to 7, rounded to two decimal places (within 0.005 of it,
  stated with a margin of one millionth for the binary representation).
\<close>

theorem calculate_area_entries:
  assumes "fs classified_tif_path = Some src" and "band1 src = ByteBand ws"
    and "warp (crs (profile src)) ''EPSG:3857'' (width (profile src)) (height (profile src))
           (transform (profile src)) = Inr (tr, w', h')"
  shows "\<exists>rep t. calculate_area warp fs classified_tif_path = Inr rep
           \<and> fst ` set rep =
               {label. \<exists>k. class_labels k = Some label \<and> word_of_int k \<in> set ws}
                 \<union> {''Total_Analyzed_Area''}
           \<and> (\<forall>(label, s) \<in> set rep. class_id s \<noteq> Some 0)
           \<and> (\<forall>ws'. (\<forall>w. 1 \<le> w \<and> w \<le> 7 \<longrightarrow> count_list ws' w = count_list ws w) \<longrightarrow>
                 calculate_area warp (fs(classified_tif_path \<mapsto> src\<lparr>band1 := ByteBand ws'\<rparr>))
                   classified_tif_path = Inr rep)
           \<and> total_hectares rep = Some t
           \<and> \<bar>t - real (length (filter (\<lambda>w. 1 \<le> w \<and> w \<le> 7) ws)) * (t_a tr * \<bar>t_e tr\<bar>) / 10000\<bar>
                 \<le> 0.005 + 1 / 10 ^ 6"
proof -
  let ?pa = "t_a tr * \<bar>t_e tr\<bar>"
  let ?rep = "area_report ?pa (ByteBand ws)"
  let ?x = "real (length (filter (\<lambda>w. 1 \<le> w \<and> w \<le> 7) ws)) * ?pa / 10000"
  have run: "calculate_area warp fs classified_tif_path = Inr ?rep"
    using assms by (rule calculate_area_byte)
  have ids: "\<forall>(label, s) \<in> set ?rep. class_id s \<noteq> Some 0"
    using class_id_area_report_byte [of _ _ ?pa ws] by blast
  have f: "filter (\<lambda>w. 1 \<le> w \<and> w \<le> 7) ws = filter is_class ws"
    by (simp add: is_class_def [abs_def])
  have same: "calculate_area warp (fs(classified_tif_path \<mapsto> src\<lparr>band1 := ByteBand ws'\<rparr>))
      classified_tif_path = Inr ?rep"
    if "\<forall>w. 1 \<le> w \<and> w \<le> 7 \<longrightarrow> count_list ws' w = count_list ws w" for ws'
  proof -
    from that have "area_report ?pa (ByteBand ws') = ?rep"
      by (intro area_report_cong) (simp add: is_class_def)
    moreover have "calculate_area warp (fs(classified_tif_path \<mapsto> src\<lparr>band1 := ByteBand ws'\<rparr>))
        classified_tif_path = Inr (area_report ?pa (ByteBand ws'))"
      using assms(3) by (intro calculate_area_byte [where src = "src\<lparr>band1 := ByteBand ws'\<rparr>"]) simp_all
    ultimately show ?thesis by simp
  qed
  have tot: "total_hectares ?rep = Some (py_round ?x 2)"
    by (simp only: total_hectares_area_report_byte f)
  have tol: "\<bar>py_round ?x 2 - ?x\<bar> \<le> 0.005 + 1 / 10 ^ 6"
    using py_round_err [of ?x] by simp
  have keys: "fst ` set ?rep =
      {label. \<exists>k. class_labels k = Some label \<and> word_of_int k \<in> set ws}
        \<union> {''Total_Analyzed_Area''}"
    by (rule keys_area_report_byte)
  from run keys ids same tot tol show ?thesis by blast
qed

theorem calculate_area_entries_witness:
  "\<exists>rep t. calculate_area (ex_warp 12 12) [''classified.tif'' \<mapsto> ex_classified 2 2 [3, 0, 4, 3]]
            ''classified.tif'' = Inr rep
         \<and> ''Total_Analyzed_Area'' \<in> fst ` set rep
         \<and> calculate_area (ex_warp 12 12) [''classified.tif'' \<mapsto> ex_classified 2 2 [3, 9, 4, 3]]
            ''classified.tif'' = Inr rep
         \<and> total_hectares rep = Some t \<and> \<bar>t - 0.0432\<bar> \<le> 0.005 + 1 / 10 ^ 6"
proof -
  let ?src = "ex_classified 2 2 [3, 0, 4, 3]"
  let ?fs = "[''classified.tif'' \<mapsto> ?src]"
  have h: "?fs ''classified.tif'' = Some ?src"
    "band1 ?src = ByteBand [3, 0, 4, 3]"
    "ex_warp 12 12 (crs (profile ?src)) ''EPSG:3857'' (width (profile ?src))
       (height (profile ?src)) (transform (profile ?src))
       = Inr (\<lparr>t_a = 12, t_b = 0, t_c = 0, t_d = 0, t_e = - 12, t_f = 0\<rparr>, 2, 2)"
    by (simp_all add: ex_classified_def ex_warp_def ex_profile_def)
  from calculate_area_entries [of ?fs "''classified.tif''" ?src
      "[3, 0, 4, 3]" "ex_warp 12 12" _ 2 2, OF h]
  obtain rep t where r: "calculate_area (ex_warp 12 12) ?fs ''classified.tif'' = Inr rep"
    and k: "''Total_Analyzed_Area'' \<in> fst ` set rep"
    and c: "\<forall>ws'. (\<forall>w. 1 \<le> w \<and> w \<le> 7 \<longrightarrow> count_list ws' w = count_list [3, 0, 4, 3] w) \<longrightarrow>
         calculate_area (ex_warp 12 12) (?fs(''classified.tif'' \<mapsto> ?src\<lparr>band1 := ByteBand ws'\<rparr>))
           ''classified.tif'' = Inr rep"
    and t: "total_hectares rep = Some t"
      "\<bar>t - real (length (filter (\<lambda>w. 1 \<le> w \<and> w \<le> 7) [3, 0, 4, 3 :: 8 word]))
          * (t_a \<lparr>t_a = 12, t_b = 0, t_c = 0, t_d = 0, t_e = - 12, t_f = 0\<rparr>
             * \<bar>t_e \<lparr>t_a = 12, t_b = 0, t_c = 0, t_d = 0, t_e = - 12, t_f = 0\<rparr>\<bar>) / 10000\<bar>
       \<le> 0.005 + 1 / 10 ^ 6"
    by blast
  have "\<forall>w :: 8 word. 1 \<le> w \<and> w \<le> 7 \<longrightarrow> count_list [3, 9, 4, 3] w = count_list [3, 0, 4, 3] w"
    by auto
  with c have "calculate_area (ex_warp 12 12)
      (?fs(''classified.tif'' \<mapsto> ?src\<lparr>band1 := ByteBand [3, 9, 4, 3]\<rparr>)) ''classified.tif'' = Inr rep"
    by blast
  then have r': "calculate_area (ex_warp 12 12)
      [''classified.tif'' \<mapsto> ex_classified 2 2 [3, 9, 4, 3]] ''classified.tif'' = Inr rep"
    by (simp add: ex_classified_def)
  from t(2) have "\<bar>t - 0.0432\<bar> \<le> 0.005 + 1 / 10 ^ 6" by simp
  with r k r' t(1) show ?thesis by blast
qed

subsection \<open>The sum of the rounded areas\<close>

lemma is_class_cases:
  assumes "is_class w"
  shows "w \<in> {1, 2, 3, 4, 5, 6, 7}"
proof -
  from assms have "1 \<le> uint w" "uint w \<le> 7" by (simp_all add: is_class_uint)
  then have "uint w = 1 \<or> uint w = 2 \<or> uint w = 3 \<or> uint w = 4 \<or> uint w = 5
      \<or> uint w = 6 \<or> uint w = 7"
    by (rule int_1_7_cases)
  then have "uint w = uint (1 :: 8 word) \<or> uint w = uint (2 :: 8 word) \<or> uint w = uint (3 :: 8 word)
      \<or> uint w = uint (4 :: 8 word) \<or> uint w = uint (5 :: 8 word) \<or> uint w = uint (6 :: 8 word)
      \<or> uint w = uint (7 :: 8 word)"
    by simp
  then show ?thesis
    unfolding word_uint_eq_iff [symmetric] by blast
qed

lemma length_class_values: "length (class_values ws) \<le> 7"
proof -
  have "set (class_values ws) \<subseteq> {1, 2, 3, 4, 5, 6, 7}"
    using is_class_cases by (auto simp: set_class_values)
  then have "card (set (class_values ws)) \<le> card {1, 2, 3, 4, 5, 6, 7 :: 8 word}"
    by (intro card_mono) simp_all
  also have "\<dots> \<le> 7"
    by (simp add: card_insert_if)
  finally show ?thesis
    by (simp add: distinct_card [OF distinct_class_values])
qed

lemma abs_add_bound:
  fixes a b c d p q :: real
  shows "\<bar>a - b\<bar> \<le> c \<Longrightarrow> \<bar>p - q\<bar> \<le> d \<Longrightarrow> \<bar>(p + a) - (q + b)\<bar> \<le> d + c"
  by linarith

lemma abs_via_bound:
  fixes a m t c d :: real
  shows "\<bar>a - m\<bar> \<le> c \<Longrightarrow> \<bar>t - m\<bar> \<le> d \<Longrightarrow> \<bar>a - t\<bar> \<le> c + d"
  by linarith

lemma sum_list_rounding:
  "\<bar>(\<Sum>x\<leftarrow>xs. py_round (f x) 2) - (\<Sum>x\<leftarrow>xs. f x)\<bar> \<le> real (length xs) / 200"
proof (induction xs)
  case Nil
  then show ?case by simp
next
  case (Cons x xs)
  have "\<bar>py_round (f x) 2 - f x\<bar> \<le> 1 / 200" by (rule py_round_err)
  from abs_add_bound [OF Cons.IH this] show ?case by (simp add: add_divide_distrib)
qed

lemma sum_list_div_const: "(\<Sum>x\<leftarrow>xs. g x / c) = (\<Sum>x\<leftarrow>xs. g x) / (c::real)"
  by (induction xs) (simp_all add: add_divide_distrib)

lemma per_class_sum_area_report_byte:
  "per_class_sum (area_report pa (ByteBand ws)) =
     (\<Sum>w\<leftarrow>class_values ws. py_round (real (count_list ws w) * pa / 10000) 2)"
proof -
  let ?es = "map (byte_entry pa ws) (class_values ws)"
  have keep: "filter (\<lambda>(label, s). label \<noteq> ''Total_Analyzed_Area'') ?es = ?es"
    by (intro filter_True) (auto simp: byte_entry_def label_of_not_total)
  show ?thesis
    unfolding per_class_sum_def area_report_byte filter_append keep
    by (simp add: byte_entry_def comp_def)
qed

lemma report_gap_area_report_byte:
  "\<exists>g. report_gap (Inr (area_report pa (ByteBand ws))) = Some g
       \<and> g \<le> real (length (area_report pa (ByteBand ws))) / 200"
proof -
  let ?f = "\<lambda>w. real (count_list ws w) * pa / 10000"
  let ?cv = "class_values ws"
  let ?T = "py_round (real (length (filter is_class ws)) * pa / 10000) 2"
  have sum: "(\<Sum>w\<leftarrow>?cv. ?f w) = real (length (filter is_class ws)) * pa / 10000"
    by (simp only: sum_list_div_const total_area_class_values)
  have gap: "report_gap (Inr (area_report pa (ByteBand ws)))
      = Some \<bar>(\<Sum>w\<leftarrow>?cv. py_round (?f w) 2) - ?T\<bar>"
    by (simp add: report_gap_def total_hectares_area_report_byte per_class_sum_area_report_byte)
  have a: "\<bar>(\<Sum>w\<leftarrow>?cv. py_round (?f w) 2) - (\<Sum>w\<leftarrow>?cv. ?f w)\<bar> \<le> real (length ?cv) / 200"
    by (rule sum_list_rounding)
  have b: "\<bar>?T - (\<Sum>w\<leftarrow>?cv. ?f w)\<bar> \<le> 1 / 200"
    unfolding sum by (rule py_round_err)
  have len: "length (area_report pa (ByteBand ws)) = length ?cv + 1"
    by (simp add: area_report_byte)
  from abs_via_bound [OF a b]
  have "\<bar>(\<Sum>w\<leftarrow>?cv. py_round (?f w) 2) - ?T\<bar> \<le> real (length ?cv + 1) / 200"
    by (simp add: add_divide_distrib)
  with gap len show ?thesis by simp
qed

text \<open>
  Claim C4 says that the sum of the per-class areas is within 0.01 hectare of the total
  for every classified raster. It is not: with four classes of one pixel each and a pixel
  of 12 m by 12 m, every class area rounds from 0.0144 down to 0.01, the total rounds from
  0.0576 up to 0.06, and the sum 0.04 is 0.02 away from it.
\<close>

theorem area_sum_tolerance_counterexample:
  "report_gap (calculate_area (ex_warp 12 12)
      [''classified.tif'' \<mapsto> ex_classified 2 2 [1, 2, 3, 4]] ''classified.tif'') = Some (2 / 100)
   \<and> \<not> (2 / 100 \<le> (1 / 100 :: real))"
  by (simp add: calculate_area_def rio_open_def read1_def ex_warp_def ex_classified_def
      area_report_def unique_counts_def class_labels_simps py_round_def round_half_even_def
      report_gap_def total_hectares_def reported_area_def dict_get_def per_class_sum_def)

text \<open>
  Claim C4, amended. Each per-class area and the total are rounded on their own, so the sum
  of the per-class areas is within 0.005 hectare times the number of entries of the report
  (the classes present, and the total) of the total: within 0.04 hectare, a report having
  at most eight entries.
\<close>

theorem area_sum_rounding_bound:
  assumes "fs classified_tif_path = Some src" and "band1 src = ByteBand ws"
    and "warp (crs (profile src)) ''EPSG:3857'' (width (profile src)) (height (profile src))
           (transform (profile src)) = Inr (tr, w', h')"
  shows "\<exists>rep g. calculate_area warp fs classified_tif_path = Inr rep
           \<and> report_gap (Inr rep) = Some g
           \<and> g \<le> real (length rep) * 0.005
           \<and> length rep \<le> 8
           \<and> g \<le> 0.04"
proof -
  let ?rep = "area_report (t_a tr * \<bar>t_e tr\<bar>) (ByteBand ws)"
  have run: "calculate_area warp fs classified_tif_path = Inr ?rep"
    using assms by (rule calculate_area_byte)
  obtain g where g: "report_gap (Inr ?rep) = Some g" "g \<le> real (length ?rep) / 200"
    using report_gap_area_report_byte by blast
  have len: "length ?rep \<le> 8"
    using length_class_values [of ws] by (simp add: area_report_byte)
  then have "real (length ?rep) / 200 \<le> 0.04" by simp
  with g(2) have "g \<le> 0.04" by linarith
  moreover from g(2) have "g \<le> real (length ?rep) * 0.005" by simp
  ultimately show ?thesis using run g(1) len by blast
qed

theorem area_sum_rounding_bound_witness:
  "\<exists>rep g. calculate_area (ex_warp 12 12) [''classified.tif'' \<mapsto> ex_classified 2 2 [1, 2, 3, 4]]
              ''classified.tif'' = Inr rep
         \<and> report_gap (Inr rep) = Some g \<and> g \<le> 0.04"
proof -
  let ?fs = "[''classified.tif'' \<mapsto> ex_classified 2 2 [1, 2, 3, 4]]"
  have h: "?fs ''classified.tif'' = Some (ex_classified 2 2 [1, 2, 3, 4])"
    "band1 (ex_classified 2 2 [1, 2, 3, 4]) = ByteBand [1, 2, 3, 4]"
    "ex_warp 12 12 (crs (profile (ex_classified 2 2 [1, 2, 3, 4]))) ''EPSG:3857''
       (width (profile (ex_classified 2 2 [1, 2, 3, 4])))
       (height (profile (ex_classified 2 2 [1, 2, 3, 4])))
       (transform (profile (ex_classified 2 2 [1, 2, 3, 4])))
       = Inr (\<lparr>t_a = 12, t_b = 0, t_c = 0, t_d = 0, t_e = - 12, t_f = 0\<rparr>, 2, 2)"
    by (simp_all add: ex_classified_def ex_warp_def ex_profile_def)
  from area_sum_rounding_bound [of ?fs "''classified.tif''" "ex_classified 2 2 [1, 2, 3, 4]"
      "[1, 2, 3, 4]" "ex_warp 12 12" _ 2 2, OF h]
  show ?thesis by blast
qed

subsection \<open>A raster of one class\<close>

lemma remdups_all_equal:
  assumes "ws \<noteq> []" and "\<forall>w \<in> set ws. w = c"
  shows "remdups ws = [c]"
  using assms
proof (induction ws rule: list_nonempty_induct)
  case (single x)
  then show ?case by simp
next
  case (cons x xs)
  from cons.prems have x: "x = c" and rest: "\<forall>w \<in> set xs. w = c" by simp_all
  from cons.hyps obtain y ys where xs: "xs = y # ys" by (cases xs) simp_all
  with rest have "y = c" by simp
  with xs have mem: "c \<in> set xs" by simp
  from cons.IH [OF rest] have "remdups xs = [c]" .
  with mem show ?case unfolding x by simp
qed

lemma count_list_all_equal: "\<forall>w \<in> set ws. w = c \<Longrightarrow> count_list ws c = length ws"
  by (induction ws) simp_all

lemma class_values_unburned:
  assumes "ws \<noteq> []" and "\<forall>w \<in> set ws. w = 3"
  shows "class_values ws = [3]"
  using remdups_all_equal [OF assms] by (simp add: class_values_def is_class_def)

text \<open>
  Claim C6 says that for a raster entirely of class 3 the report gives 0 under every other
  class label. It gives nothing there: the report of a 2 by 2 raster of class 3 has the
  entries \<open>Unburned\<close> and \<open>Total_Analyzed_Area\<close> only, and no area, not the area 0, under
  \<open>Low-Severity Burn\<close>.
\<close>

theorem all_unburned_counterexample:
  "calculate_area (ex_warp 10 10) [''classified.tif'' \<mapsto> ex_classified 2 2 [3, 3, 3, 3]]
     ''classified.tif''
     = Inr [(''Unburned'', \<lparr>class_id = Some 3, area_hectares = 4 / 100\<rparr>),
            (''Total_Analyzed_Area'', \<lparr>class_id = None, area_hectares = 4 / 100\<rparr>)]
   \<and> reported_area [(''Unburned'', \<lparr>class_id = Some 3, area_hectares = 4 / 100\<rparr>),
                     (''Total_Analyzed_Area'', \<lparr>class_id = None, area_hectares = 4 / 100\<rparr>)]
        ''Low-Severity Burn'' = None
   \<and> reported_area [(''Unburned'', \<lparr>class_id = Some 3, area_hectares = 4 / 100\<rparr>),
                     (''Total_Analyzed_Area'', \<lparr>class_id = None, area_hectares = 4 / 100\<rparr>)]
        ''Low-Severity Burn'' \<noteq> Some 0"
  by (simp add: calculate_area_def rio_open_def read1_def ex_warp_def ex_classified_def
      area_report_def unique_counts_def class_labels_simps py_round_def round_half_even_def
      reported_area_def dict_get_def)

text \<open>
  Claim C6, amended. For a non-empty raster entirely of class 3 the report consists of the
  entry \<open>Unburned\<close>, which carries the whole analyzed area (the same value as the total),
  and of the total; it has no entry for any other class label. The common value is the
  area of the raster rounded to two decimal places (within 0.005 of it, stated with a
  margin of one millionth for the binary representation). The witness is the 100 by 100
  raster with pixels of 10 m: 100 hectares.
\<close>

theorem calculate_area_all_unburned:
  assumes "fs classified_tif_path = Some src" and "band1 src = ByteBand ws"
    and "warp (crs (profile src)) ''EPSG:3857'' (width (profile src)) (height (profile src))
           (transform (profile src)) = Inr (tr, w', h')"
    and "ws \<noteq> []" and "\<forall>w \<in> set ws. w = 3"
  shows "\<exists>a. calculate_area warp fs classified_tif_path =
               Inr [(''Unburned'', \<lparr>class_id = Some 3, area_hectares = a\<rparr>),
                    (''Total_Analyzed_Area'', \<lparr>class_id = None, area_hectares = a\<rparr>)]
           \<and> \<bar>a - real (length ws) * (t_a tr * \<bar>t_e tr\<bar>) / 10000\<bar> \<le> 0.005 + 1 / 10 ^ 6"
proof -
  let ?x = "real (length ws) * (t_a tr * \<bar>t_e tr\<bar>) / 10000"
  have "calculate_area warp fs classified_tif_path =
      Inr (area_report (t_a tr * \<bar>t_e tr\<bar>) (ByteBand ws))"
    using assms(1-3) by (rule calculate_area_byte)
  moreover have "class_values ws = [3]"
    using assms(4,5) by (rule class_values_unburned)
  moreover have "count_list ws 3 = length ws"
    using assms(5) by (rule count_list_all_equal)
  ultimately have "calculate_area warp fs classified_tif_path =
      Inr [(''Unburned'', \<lparr>class_id = Some 3, area_hectares = py_round ?x 2\<rparr>),
           (''Total_Analyzed_Area'', \<lparr>class_id = None, area_hectares = py_round ?x 2\<rparr>)]"
    by (simp add: area_report_byte byte_entry_def label_of_def class_labels_simps)
  moreover have "\<bar>py_round ?x 2 - ?x\<bar> \<le> 0.005 + 1 / 10 ^ 6"
    using py_round_err [of ?x] by simp
  ultimately show ?thesis by blast
qed

theorem calculate_area_all_unburned_witness:
  "\<exists>a. calculate_area (ex_warp 10 10)
          [''classified.tif'' \<mapsto> ex_classified 100 100 (replicate (100 * 100) 3)] ''classified.tif''
          = Inr [(''Unburned'', \<lparr>class_id = Some 3, area_hectares = a\<rparr>),
                 (''Total_Analyzed_Area'', \<lparr>class_id = None, area_hectares = a\<rparr>)]
      \<and> \<bar>a - 100\<bar> \<le> 0.005 + 1 / 10 ^ 6"
proof -
  let ?ws = "replicate (100 * 100) (3 :: 8 word)"
  let ?src = "ex_classified 100 100 ?ws"
  let ?fs = "[''classified.tif'' \<mapsto> ?src]"
  have h: "?fs ''classified.tif'' = Some ?src"
    "band1 ?src = ByteBand ?ws"
    "ex_warp 10 10 (crs (profile ?src)) ''EPSG:3857'' (width (profile ?src))
       (height (profile ?src)) (transform (profile ?src))
       = Inr (\<lparr>t_a = 10, t_b = 0, t_c = 0, t_d = 0, t_e = - 10, t_f = 0\<rparr>, 100, 100)"
    "?ws \<noteq> []" "\<forall>w \<in> set ?ws. w = 3"
    by (simp_all add: ex_classified_def ex_warp_def ex_profile_def)
  from calculate_area_all_unburned [of ?fs "''classified.tif''" ?src
      ?ws "ex_warp 10 10" _ 100 100, OF h]
  show ?thesis by simp
qed

end
